theory Spec2Isabelle
  imports Complex_Main "HOL-Library.Char_ord" "HOL-Library.Multiset"
begin

section \<open>JavaScript strings\<close>

text \<open>
  A JavaScript string is a sequence of UTF-16 code units. The model writes it as a
  \<open>string\<close>: a \<open>char\<close> stands for the code unit with the same number, so the
  strings of the model are those whose code units lie in U+0000 .. U+00FF. Indices and
  lengths count code units, as \<open>String.prototype.length\<close> does.
\<close>

definition is_digit :: "char \<Rightarrow> bool" where
  \<comment> \<open>\<open>\d\<close>, \<open>[0-9]\<close>\<close>
  "is_digit c \<longleftrightarrow> CHR ''0'' \<le> c \<and> c \<le> CHR ''9''"

definition is_upper :: "char \<Rightarrow> bool" where
  \<comment> \<open>\<open>[A-Z]\<close>\<close>
  "is_upper c \<longleftrightarrow> CHR ''A'' \<le> c \<and> c \<le> CHR ''Z''"

definition is_lower :: "char \<Rightarrow> bool" where
  \<comment> \<open>\<open>[a-z]\<close>\<close>
  "is_lower c \<longleftrightarrow> CHR ''a'' \<le> c \<and> c \<le> CHR ''z''"

definition is_word :: "char \<Rightarrow> bool" where
  \<comment> \<open>\<open>\w\<close>, \<open>[A-Za-z0-9_]\<close>: what \<open>\b\<close> looks at\<close>
  "is_word c \<longleftrightarrow> is_upper c \<or> is_lower c \<or> is_digit c \<or> c = CHR ''_''"

definition is_space :: "char \<Rightarrow> bool" where
  \<comment> \<open>\<open>\s\<close>: the white space and line terminators of ECMAScript below U+0100\<close>
  "is_space c \<longleftrightarrow>
     c \<in> set [CHR 0x09, CHR 0x0A, CHR 0x0B, CHR 0x0C, CHR 0x0D, CHR 0x20, CHR 0xA0]"

definition js_substring :: "string \<Rightarrow> int \<Rightarrow> int \<Rightarrow> string" where
  \<comment> \<open>\<open>s.substring(a, b)\<close>: both ends are clamped to \<open>0 .. length\<close> and swapped when
      \<open>a > b\<close>\<close>
  "js_substring s a b =
     (let n = int (length s);
          a' = min (max a 0) n;
          b' = min (max b 0) n;
          lo = min a' b';
          hi = max a' b'
      in take (nat (hi - lo)) (drop (nat lo) s))"

definition js_substring_from :: "string \<Rightarrow> int \<Rightarrow> string" where
  \<comment> \<open>\<open>s.substring(a)\<close>\<close>
  "js_substring_from s a = js_substring s a (int (length s))"

section \<open>Regular expressions\<close>

text \<open>
  The three patterns of \<open>PII_PATTERNS\<close> are built from character classes, literals,
  \<open>\b\<close>, sequencing, the greedy \<open>?\<close>, and the greedy \<open>+\<close>, \<open>{2,}\<close> and \<open>{n}\<close> on a
  character class. \<open>ends r t i\<close> lists the indices at which a match of \<open>r\<close> that starts
  at index \<open>i\<close> of \<open>t\<close> can end, in the order in which the backtracking matcher of
  ECMAScript tries them: the match the engine reports at \<open>i\<close> ends at the head of the
  list, and there is no match at \<open>i\<close> when the list is empty.
\<close>

datatype regex =
    Eps
  | Cls "char \<Rightarrow> bool"
  | WordB
  | Seq regex regex
  | Opt regex
  | Many nat "char \<Rightarrow> bool"

definition word_boundary :: "string \<Rightarrow> nat \<Rightarrow> bool" where
  \<comment> \<open>\<open>\b\<close>: exactly one of the code units before and at \<open>i\<close> is a word character\<close>
  "word_boundary t i \<longleftrightarrow>
     ((0 < i \<and> i \<le> length t \<and> is_word (t ! (i - 1))) \<noteq> (i < length t \<and> is_word (t ! i)))"

fun ends :: "regex \<Rightarrow> string \<Rightarrow> nat \<Rightarrow> nat list" where
  "ends Eps t i = [i]"
| "ends (Cls p) t i = (if i < length t \<and> p (t ! i) then [Suc i] else [])"
| "ends WordB t i = (if word_boundary t i then [i] else [])"
| "ends (Seq a b) t i = concat (map (ends b t) (ends a t i))"
| "ends (Opt a) t i = filter (\<lambda>j. j \<noteq> i) (ends a t i) @ [i]"
| "ends (Many n p) t i =
     (let k = length (takeWhile p (drop i t))
      in if n \<le> k then rev (map (\<lambda>j. i + j) [n..<Suc k]) else [])"

fun exactly :: "nat \<Rightarrow> regex \<Rightarrow> regex" where
  \<comment> \<open>\<open>r{n}\<close>\<close>
  "exactly 0 r = Eps"
| "exactly (Suc n) r = Seq r (exactly n r)"

fun seqs :: "regex list \<Rightarrow> regex" where
  "seqs [] = Eps"
| "seqs (r # rs) = Seq r (seqs rs)"

definition lit :: "char \<Rightarrow> regex" where
  "lit c = Cls (\<lambda>x. x = c)"

text \<open>
  \<open>RegExp.prototype.exec\<close> on a regular expression with the \<open>g\<close> flag, at
  \<open>lastIndex = i\<close>: the first index from \<open>i\<close> on at which the pattern matches, with the
  end of that match. It fails at once when \<open>lastIndex\<close> is beyond the length. The new
  \<open>lastIndex\<close> is the end of the match, and \<open>0\<close> after a failure.
\<close>

function scan :: "regex \<Rightarrow> string \<Rightarrow> nat \<Rightarrow> (nat \<times> nat) option" where
  "scan r t i =
     (if length t < i then None
      else case ends r t i of e # _ \<Rightarrow> Some (i, e) | [] \<Rightarrow> scan r t (Suc i))"
  by pat_completeness auto
termination
  by (relation "measure (\<lambda>(r, t, i). Suc (length t) - i)") auto

declare scan.simps [simp del]

definition regex_exec :: "regex \<Rightarrow> string \<Rightarrow> nat \<Rightarrow> (nat \<times> nat) option \<times> nat" where
  "regex_exec r t lastIndex =
     (case scan r t lastIndex of
        None \<Rightarrow> (None, 0)
      | Some (s, e) \<Rightarrow> (Some (s, e), e))"

definition regex_test :: "regex \<Rightarrow> string \<Rightarrow> nat \<Rightarrow> bool \<times> nat" where
  \<comment> \<open>\<open>RegExp.prototype.test\<close>: \<open>exec\<close>, with the match dropped\<close>
  "regex_test r t lastIndex =
     (case regex_exec r t lastIndex of (m, lastIndex') \<Rightarrow> (m \<noteq> None, lastIndex'))"

text \<open>
  The loop \<open>while ((match = regex.exec(text)) !== null)\<close>. \<open>exec\<close> leaves
  \<open>lastIndex\<close> at the end of the match, so a pattern that matched the empty string
  would be tried at the same index for ever: the loop is a partial function, and
  \<open>None\<close> is the run that does not return.
\<close>

partial_function (option) exec_loop :: "regex \<Rightarrow> string \<Rightarrow> nat \<Rightarrow> (nat \<times> nat) list option" where
  "exec_loop r t lastIndex =
     (case regex_exec r t lastIndex of
        (None, _) \<Rightarrow> Some []
      | (Some m, lastIndex') \<Rightarrow> Option.bind (exec_loop r t lastIndex') (\<lambda>ms. Some (m # ms)))"

declare exec_loop.simps [code]

section \<open>The redaction engine (\<open>src/services/redaction.ts\<close>)\<close>

datatype pii_type = Email | Phone | Ssn

text \<open>
  \<open>hashValue\<close> is the hexadecimal SHA-256 digest of the value. The digest is kept
  symbolic: \<open>SHA256_hex v\<close> stands for the 64 hexadecimal digits computed from \<open>v\<close>.
\<close>

datatype digest = SHA256_hex string

record RedactionMatch =
  m_type :: pii_type
  m_value :: string
  m_start :: int
  m_end :: int
  m_hash :: digest

record RedactionResult =
  redactedText :: string
  matches :: "RedactionMatch list"
  redactionCount :: nat

definition email_user :: "char \<Rightarrow> bool" where
  \<comment> \<open>\<open>[A-Za-z0-9._%+-]\<close>\<close>
  "email_user c \<longleftrightarrow> is_upper c \<or> is_lower c \<or> is_digit c \<or> c \<in> set ''._%+-''"

definition email_host :: "char \<Rightarrow> bool" where
  \<comment> \<open>\<open>[A-Za-z0-9.-]\<close>\<close>
  "email_host c \<longleftrightarrow> is_upper c \<or> is_lower c \<or> is_digit c \<or> c \<in> set ''.-''"

definition email_tld :: "char \<Rightarrow> bool" where
  \<comment> \<open>\<open>[A-Z|a-z]\<close>: the bar is a member of the class\<close>
  "email_tld c \<longleftrightarrow> is_upper c \<or> c = CHR ''|'' \<or> is_lower c"

definition phone_sep :: "char \<Rightarrow> bool" where
  \<comment> \<open>\<open>[-.\s]\<close>\<close>
  "phone_sep c \<longleftrightarrow> c = CHR ''-'' \<or> c = CHR ''.'' \<or> is_space c"

definition ssn_sep :: "char \<Rightarrow> bool" where
  \<comment> \<open>\<open>[-\s]\<close>\<close>
  "ssn_sep c \<longleftrightarrow> c = CHR ''-'' \<or> is_space c"

definition email_re :: regex where
  \<comment> \<open>\<open>/\b[A-Za-z0-9._%+-]+@[A-Za-z0-9.-]+\.[A-Z|a-z]{2,}\b/g\<close>\<close>
  "email_re =
     seqs [WordB, Many 1 email_user, lit CHR ''@'', Many 1 email_host, lit CHR ''.'',
           Many 2 email_tld, WordB]"

definition phone_re :: regex where
  \<comment> \<open>\<open>/(\+?1[-.\s]?)?\(?\d{3}\)?[-.\s]?\d{3}[-.\s]?\d{4}\b/g\<close>\<close>
  "phone_re =
     seqs [Opt (seqs [Opt (lit CHR ''+''), lit CHR ''1'', Opt (Cls phone_sep)]),
           Opt (lit CHR ''(''), exactly 3 (Cls is_digit), Opt (lit CHR '')''),
           Opt (Cls phone_sep), exactly 3 (Cls is_digit), Opt (Cls phone_sep),
           exactly 4 (Cls is_digit), WordB]"

definition ssn_re :: regex where
  \<comment> \<open>\<open>/\b\d{3}[-\s]?\d{2}[-\s]?\d{4}\b/g\<close>\<close>
  "ssn_re =
     seqs [WordB, exactly 3 (Cls is_digit), Opt (Cls ssn_sep), exactly 2 (Cls is_digit),
           Opt (Cls ssn_sep), exactly 4 (Cls is_digit), WordB]"

definition PII_PATTERNS :: "(pii_type \<times> regex) list" where
  \<comment> \<open>in the order of \<open>Object.entries\<close>\<close>
  "PII_PATTERNS = [(Email, email_re), (Phone, phone_re), (Ssn, ssn_re)]"

fun REDACTION_LABELS :: "pii_type \<Rightarrow> string" where
  "REDACTION_LABELS Email = ''[REDACTED_EMAIL]''"
| "REDACTION_LABELS Phone = ''[REDACTED_PHONE]''"
| "REDACTION_LABELS Ssn = ''[REDACTED_SSN]''"

definition hashValue :: "string \<Rightarrow> digest" where
  "hashValue v = SHA256_hex v"

definition new_match :: "pii_type \<Rightarrow> string \<Rightarrow> nat \<times> nat \<Rightarrow> RedactionMatch" where
  \<comment> \<open>the object pushed on \<open>tempMatches\<close> for one result of \<open>exec\<close>\<close>
  "new_match ty text m =
     (case m of (s, e) \<Rightarrow>
        let v = js_substring text (int s) (int e)
        in \<lparr>m_type = ty, m_value = v, m_start = int s, m_end = int s + int (length v),
            m_hash = hashValue v\<rparr>)"

fun apply_redactions ::
  "int \<Rightarrow> RedactionMatch list \<Rightarrow> string \<times> RedactionMatch list \<Rightarrow> string \<times> RedactionMatch list"
where
  \<comment> \<open>the loop "Apply redactions": splice the label, then move the match's offsets\<close>
  "apply_redactions offsetAdjustment [] (redacted, ms) = (redacted, ms)"
| "apply_redactions offsetAdjustment (matchItem # rest) (redacted, ms) =
     (let label = REDACTION_LABELS (m_type matchItem);
          before = js_substring redacted 0 (m_start matchItem);
          after = js_substring_from redacted (m_end matchItem);
          start' = m_start matchItem + offsetAdjustment;
          matchItem' = matchItem\<lparr>m_start := start', m_end := start' + int (length label)\<rparr>
      in apply_redactions offsetAdjustment rest (before @ label @ after, ms @ [matchItem']))"

definition offset_change :: "RedactionMatch list \<Rightarrow> int" where
  \<comment> \<open>the loop "Update offset adjustment"\<close>
  "offset_change tempMatches =
     sum_list (map (\<lambda>m. int (length (REDACTION_LABELS (m_type m))) - int (length (m_value m)))
       tempMatches)"

definition redact_type ::
  "string \<Rightarrow> pii_type \<times> regex \<Rightarrow> string \<times> RedactionMatch list \<times> int
     \<Rightarrow> (string \<times> RedactionMatch list \<times> int) option"
where
  \<comment> \<open>one round of the loop over \<open>PII_PATTERNS\<close>; the new \<open>RegExp\<close> starts at
      \<open>lastIndex = 0\<close>, and \<open>sort\<close> is stable\<close>
  "redact_type text entry acc =
     (case entry of (ty, pattern) \<Rightarrow>
       (case acc of (redacted, ms, offsetAdjustment) \<Rightarrow>
         (case exec_loop pattern text 0 of
            None \<Rightarrow> None
          | Some found \<Rightarrow>
              (let tempMatches = sort_key (\<lambda>m. - m_start m) (map (new_match ty text) found);
                   (redacted', ms') = apply_redactions offsetAdjustment tempMatches (redacted, ms)
               in Some (redacted', ms', offsetAdjustment + offset_change tempMatches)))))"

fun redact_types ::
  "string \<Rightarrow> (pii_type \<times> regex) list \<Rightarrow> string \<times> RedactionMatch list \<times> int
     \<Rightarrow> (string \<times> RedactionMatch list \<times> int) option"
where
  "redact_types text [] acc = Some acc"
| "redact_types text (entry # entries) acc =
     (case redact_type text entry acc of
        None \<Rightarrow> None
      | Some acc' \<Rightarrow> redact_types text entries acc')"

definition redactPII :: "string \<Rightarrow> RedactionResult option" where
  "redactPII text =
     (case redact_types text PII_PATTERNS (text, [], 0) of
        None \<Rightarrow> None
      | Some (redacted, ms, _) \<Rightarrow>
          let sorted_ms = sort_key m_start ms
          in Some \<lparr>redactedText = redacted, matches = sorted_ms,
                   redactionCount = length sorted_ms\<rparr>)"

text \<open>
  \<open>containsPII\<close> calls \<open>test\<close> on the regular expressions of \<open>PII_PATTERNS\<close>
  themselves. They carry the \<open>g\<close> flag, so each keeps its \<open>lastIndex\<close> from one call
  to the next: the state of the module is the \<open>lastIndex\<close> of the three patterns.
\<close>

type_synonym pattern_state = "pii_type \<Rightarrow> nat"

definition initial_patterns :: pattern_state where
  "initial_patterns = (\<lambda>_. 0)"

fun test_patterns :: "(pii_type \<times> regex) list \<Rightarrow> string \<Rightarrow> pattern_state \<Rightarrow> bool \<times> pattern_state" where
  "test_patterns [] text st = (False, st)"
| "test_patterns ((ty, pattern) # rest) text st =
     (case regex_test pattern text (st ty) of
        (found, lastIndex') \<Rightarrow>
          if found then (True, st(ty := lastIndex'))
          else test_patterns rest text (st(ty := lastIndex')))"

definition containsPII :: "string \<Rightarrow> pattern_state \<Rightarrow> bool \<times> pattern_state" where
  "containsPII text st = test_patterns PII_PATTERNS text st"

section \<open>JavaScript values\<close>

text \<open>
  A JavaScript number is an IEEE double. \<open>Fin r\<close> is the finite double whose exact
  value is the rational \<open>r\<close>; comparing two doubles compares their exact values, so the
  comparisons below are exact. The sign of zero is not kept.
\<close>

datatype jsnum = NaN | NegInf | Fin rat | PosInf

fun js_lt :: "jsnum \<Rightarrow> jsnum \<Rightarrow> bool" where
  \<comment> \<open>\<open>a < b\<close> on numbers: false when either is \<open>NaN\<close>\<close>
  "js_lt NaN b = False"
| "js_lt a NaN = False"
| "js_lt NegInf NegInf = False"
| "js_lt NegInf b = True"
| "js_lt (Fin x) (Fin y) = (x < y)"
| "js_lt (Fin x) PosInf = True"
| "js_lt (Fin x) NegInf = False"
| "js_lt PosInf b = False"

fun js_ge :: "jsnum \<Rightarrow> jsnum \<Rightarrow> bool" where
  \<comment> \<open>\<open>a >= b\<close> on numbers: false when either is \<open>NaN\<close>, and else the negation of
      \<open>a < b\<close>\<close>
  "js_ge NaN b = False"
| "js_ge a NaN = False"
| "js_ge a b = (\<not> js_lt a b)"

text \<open>
  The values that \<open>JSON.parse\<close> builds. An object is the list of its own properties,
  each key once, and \<open>map_of\<close> reads a property. A property that is absent reads as
  \<open>undefined\<close>, which is \<open>None\<close> here.
\<close>

datatype json =
    JNull
  | JBool bool
  | JNum jsnum
  | JStr string
  | JArr "json list"
  | JObj "(string \<times> json) list"

datatype js_error =
    TypeError
  | Error string
  | AppError nat string

text \<open>
  The functions of the JavaScript runtime that format and read numbers work on doubles
  and, for \<open>toLocaleString\<close>, on the locale of the process. They are parameters of
  the model: \<open>number_to_string\<close> is \<open>Number.prototype.toString\<close>,
  \<open>string_to_number\<close> is \<open>ToNumber\<close> on a string, \<open>parse_float\<close> is
  \<open>parseFloat\<close> and \<open>to_locale_string\<close> is \<open>Number.prototype.toLocaleString\<close>.
\<close>

record js_runtime =
  number_to_string :: "jsnum \<Rightarrow> string"
  string_to_number :: "string \<Rightarrow> jsnum"
  parse_float :: "string \<Rightarrow> jsnum"
  to_locale_string :: "jsnum \<Rightarrow> string"

fun js_truthy :: "json option \<Rightarrow> bool" where
  "js_truthy None = False"
| "js_truthy (Some JNull) = False"
| "js_truthy (Some (JBool b)) = b"
| "js_truthy (Some (JNum n)) = (n \<noteq> NaN \<and> n \<noteq> Fin 0)"
| "js_truthy (Some (JStr s)) = (s \<noteq> [])"
| "js_truthy (Some (JArr xs)) = True"
| "js_truthy (Some (JObj kvs)) = True"

fun js_join :: "string \<Rightarrow> string list \<Rightarrow> string" where
  "js_join sep [] = []"
| "js_join sep [x] = x"
| "js_join sep (x # y # ys) = x @ sep @ js_join sep (y # ys)"

fun sequence :: "(js_error + 'a) list \<Rightarrow> js_error + 'a list" where
  \<comment> \<open>the results in order, or the first error\<close>
  "sequence [] = Inr []"
| "sequence (Inl e # rs) = Inl e"
| "sequence (Inr x # rs) = (case sequence rs of Inl e \<Rightarrow> Inl e | Inr xs \<Rightarrow> Inr (x # xs))"

text \<open>
  \<open>ToString\<close>. An array is joined as \<open>Array.prototype.join\<close> does, with \<open>null\<close>
  elements as the empty string. An object built by \<open>JSON.parse\<close> inherits
  \<open>Object.prototype.toString\<close>, unless it has a property \<open>toString\<close> of its own:
  that property is no function, \<open>valueOf\<close> gives no primitive, and the conversion
  throws a \<open>TypeError\<close>.
\<close>

fun js_to_string :: "js_runtime \<Rightarrow> json \<Rightarrow> js_error + string" where
  "js_to_string rt JNull = Inr ''null''"
| "js_to_string rt (JBool b) = Inr (if b then ''true'' else ''false'')"
| "js_to_string rt (JNum n) = Inr (number_to_string rt n)"
| "js_to_string rt (JStr s) = Inr s"
| "js_to_string rt (JArr xs) =
     (case sequence (map (\<lambda>x. if x = JNull then Inr [] else js_to_string rt x) xs) of
        Inl e \<Rightarrow> Inl e
      | Inr strs \<Rightarrow> Inr (js_join '','' strs))"
| "js_to_string rt (JObj kvs) =
     (if ''toString'' \<in> set (map fst kvs) then Inl TypeError else Inr ''[object Object]'')"

definition js_element_string :: "js_runtime \<Rightarrow> json \<Rightarrow> js_error + string" where
  \<comment> \<open>what \<open>join\<close> writes for one element\<close>
  "js_element_string rt x = (if x = JNull then Inr [] else js_to_string rt x)"

definition js_array_join :: "js_runtime \<Rightarrow> string \<Rightarrow> json list \<Rightarrow> js_error + string" where
  \<comment> \<open>\<open>xs.join(sep)\<close>\<close>
  "js_array_join rt sep xs =
     (case sequence (map (js_element_string rt) xs) of
        Inl e \<Rightarrow> Inl e
      | Inr strs \<Rightarrow> Inr (js_join sep strs))"

fun js_to_number :: "js_runtime \<Rightarrow> json option \<Rightarrow> js_error + jsnum" where
  \<comment> \<open>\<open>ToNumber\<close>, after \<open>ToPrimitive\<close> for arrays and objects\<close>
  "js_to_number rt None = Inr NaN"
| "js_to_number rt (Some JNull) = Inr (Fin 0)"
| "js_to_number rt (Some (JBool b)) = Inr (Fin (if b then 1 else 0))"
| "js_to_number rt (Some (JNum n)) = Inr n"
| "js_to_number rt (Some (JStr s)) = Inr (string_to_number rt s)"
| "js_to_number rt (Some v) =
     (case js_to_string rt v of Inl e \<Rightarrow> Inl e | Inr s \<Rightarrow> Inr (string_to_number rt s))"

definition js_less_number :: "js_runtime \<Rightarrow> json option \<Rightarrow> jsnum \<Rightarrow> js_error + bool" where
  \<comment> \<open>\<open>v < n\<close> for a number \<open>n\<close>\<close>
  "js_less_number rt v n =
     (case js_to_number rt v of Inl e \<Rightarrow> Inl e | Inr x \<Rightarrow> Inr (js_lt x n))"

definition js_or :: "json option \<Rightarrow> json \<Rightarrow> json" where
  \<comment> \<open>\<open>v || d\<close>\<close>
  "js_or v d = (case v of None \<Rightarrow> d | Some x \<Rightarrow> if js_truthy v then x else d)"

fun digit_char :: "nat \<Rightarrow> char" where
  "digit_char n = char_of (48 + n mod 10)"

function decimal :: "nat \<Rightarrow> string" where
  \<comment> \<open>the decimal digits of an array length or a count\<close>
  "decimal n = (if n < 10 then [digit_char n] else decimal (n div 10) @ [digit_char n])"
  by pat_completeness auto
termination
  by (relation "measure id") auto

declare decimal.simps [simp del]

definition js_lower_char :: "char \<Rightarrow> char" where
  \<comment> \<open>\<open>toLowerCase\<close> on one code unit below U+0100: the letters \<open>A\<close> to \<open>Z\<close> and
      U+00C0 to U+00DE without U+00D7 move up by 32\<close>
  "js_lower_char c =
     (if is_upper c \<or> (CHR 0xC0 \<le> c \<and> c \<le> CHR 0xDE \<and> c \<noteq> CHR 0xD7)
      then char_of (of_char c + (32::nat)) else c)"

definition js_lower :: "string \<Rightarrow> string" where
  "js_lower s = map js_lower_char s"

fun starts_with :: "string \<Rightarrow> string \<Rightarrow> bool" where
  \<comment> \<open>\<open>w\<close> is a prefix of \<open>s\<close>\<close>
  "starts_with s [] = True"
| "starts_with [] (a # w) = False"
| "starts_with (c # cs) (a # w) = (if a = c then starts_with cs w else False)"

fun js_includes :: "string \<Rightarrow> string \<Rightarrow> bool" where
  \<comment> \<open>\<open>s.includes(w)\<close>\<close>
  "js_includes [] w = (w = [])"
| "js_includes (c # cs) w = (if starts_with (c # cs) w then True else js_includes cs w)"

function split_from :: "string \<Rightarrow> string \<Rightarrow> string list" where
  \<comment> \<open>\<open>split(/\s+/)\<close> with the piece read so far: a run of white space ends a piece\<close>
  "split_from piece [] = [piece]"
| "split_from piece (c # cs) =
     (if is_space c then piece # split_from [] (dropWhile is_space cs)
      else split_from (piece @ [c]) cs)"
  by pat_completeness auto
termination
  by (relation "measure (\<lambda>(piece, s). length s)") (auto simp: le_imp_less_Suc length_dropWhile_le)

definition js_split_spaces :: "string \<Rightarrow> string list" where
  "js_split_spaces s = split_from [] s"

definition js_trim :: "string \<Rightarrow> string" where
  "js_trim s = rev (dropWhile is_space (rev (dropWhile is_space s)))"

definition js_slice0 :: "'a list \<Rightarrow> int \<Rightarrow> 'a list" where
  \<comment> \<open>\<open>xs.slice(0, n)\<close>: a negative \<open>n\<close> counts from the end\<close>
  "js_slice0 xs n = (if n < 0 then take (nat (int (length xs) + n)) xs else take (nat n) xs)"

definition hex_digit :: "nat \<Rightarrow> char" where
  "hex_digit n = (if n < 10 then char_of (48 + n) else char_of (87 + n))"

definition json_quote_char :: "char \<Rightarrow> string" where
  \<comment> \<open>one code unit inside a string of \<open>JSON.stringify\<close>\<close>
  "json_quote_char c =
     (if c = CHR 0x22 then [CHR 0x5C, CHR 0x22]
      else if c = CHR 0x5C then [CHR 0x5C, CHR 0x5C]
      else if c = CHR 0x08 then [CHR 0x5C, CHR ''b'']
      else if c = CHR 0x09 then [CHR 0x5C, CHR ''t'']
      else if c = CHR 0x0A then [CHR 0x5C, CHR ''n'']
      else if c = CHR 0x0C then [CHR 0x5C, CHR ''f'']
      else if c = CHR 0x0D then [CHR 0x5C, CHR ''r'']
      else if c < CHR 0x20 then
        [CHR 0x5C, CHR ''u'', CHR ''0'', CHR ''0'',
         hex_digit (of_char c div 16), hex_digit (of_char c mod 16)]
      else [c])"

definition json_quote :: "string \<Rightarrow> string" where
  "json_quote s = [CHR 0x22] @ concat (map json_quote_char s) @ [CHR 0x22]"

fun json_stringify :: "js_runtime \<Rightarrow> json \<Rightarrow> string" where
  \<comment> \<open>\<open>JSON.stringify(v)\<close> with no indentation\<close>
  "json_stringify rt JNull = ''null''"
| "json_stringify rt (JBool b) = (if b then ''true'' else ''false'')"
| "json_stringify rt (JNum n) =
     (case n of Fin r \<Rightarrow> number_to_string rt n | _ \<Rightarrow> ''null'')"
| "json_stringify rt (JStr s) = json_quote s"
| "json_stringify rt (JArr xs) = ''['' @ js_join '','' (map (json_stringify rt) xs) @ '']''"
| "json_stringify rt (JObj kvs) =
     ''{'' @ js_join '','' (map (\<lambda>kv. json_quote (fst kv) @ '':'' @ json_stringify rt (snd kv)) kvs)
       @ ''}''"










section \<open>The rule corpus and the retriever (\<open>src/services/vectorStore.ts\<close>)\<close>

record GSA_rule =
  rule_id :: string
  rule_title :: string
  rule_content :: string
  rule_category :: string
  rule_severity :: string

definition GSA_RULES :: "GSA_rule list" where
  "GSA_RULES =
    [
     \<lparr>rule_id = ''R1'',
      rule_title = ''Unique Entity Identifier (UEI) Requirement'',
      rule_content =
        ''All vendors must provide a valid Unique Entity Identifier (UEI) in their '' @
        ''company profile. The UEI is a 12-character alphanumeric identifier assigned '' @
        ''by SAM.gov. Missing or invalid UEI is a critical compliance violation that '' @
        ''must be flagged immediately. Legacy DUNS numbers (9-digit numeric) are no '' @
        ''longer accepted as primary identifiers but may be present for reference.'',
      rule_category = ''identification'',
      rule_severity = ''critical''\<rparr>,
     \<lparr>rule_id = ''R2'',
      rule_title = ''NAICS Code to SIN Mapping'',
      rule_content =
        ''Each NAICS (North American Industry Classification System) code provided must '' @
        ''map to at least one valid Special Item Number (SIN). NAICS codes are 6-digit '' @
        ''numeric codes that classify business establishments. The mapping must be '' @
        ''verified and duplicates should be removed per the official GSA SIN to NAICS '' @
        ''mapping table. Multiple NAICS codes may map to the same SIN, but each unique '' @
        ''SIN should only be listed once in the final output.'',
      rule_category = ''classification'',
      rule_severity = ''high''\<rparr>,
     \<lparr>rule_id = ''R3'',
      rule_title = ''Contract Value Threshold'',
      rule_content =
        ''All GSA contracts must be valued at $25,000 or more to be eligible for award. '' @
        ''Contracts below this threshold are not permitted under GSA regulations. This '' @
        ''is a mandatory minimum that cannot be waived or reduced.'',
      rule_category = ''financial'',
      rule_severity = ''critical''\<rparr>,
     \<lparr>rule_id = ''R4'',
      rule_title = ''Labor Category Requirements'',
      rule_content =
        ''All service contracts must specify labor categories with clear job titles, '' @
        ''required qualifications, and minimum experience requirements. Each labor '' @
        ''category must include education requirements, years of experience, '' @
        ''certifications, and clearance levels if applicable. Labor categories must be '' @
        ''distinct and not overlap in responsibilities.'',
      rule_category = ''labor'',
      rule_severity = ''high''\<rparr>,
     \<lparr>rule_id = ''R5'',
      rule_title = ''PII Redaction Requirements'',
      rule_content =
        ''All personally identifiable information (PII) must be redacted from submitted '' @
        ''documents before processing. PII includes names, addresses, phone numbers, '' @
        ''email addresses, Social Security Numbers, and financial account information. '' @
        ''Redaction must be complete and irreversible. Partial redaction is not '' @
        ''acceptable.'',
      rule_category = ''security'',
      rule_severity = ''critical''\<rparr>]"

record rule_metadata =
  md_title :: string
  md_category :: string
  md_severity :: string

record VectorDocument =
  doc_id :: string
  doc_content :: string
  doc_metadata :: rule_metadata

text \<open>
  \<open>distances\<close> holds \<open>1 - score / 10\<close>, computed on doubles. The model keeps the score
  it is computed from.
\<close>

datatype distance = One_minus_tenth_of nat

record QueryResult =
  ids :: "string list"
  documents :: "string list"
  metadatas :: "rule_metadata list"
  distances :: "distance list"

record query_options =
  queryTexts :: "string list"
  nResults :: "int option"

type_synonym SimpleVectorStore = "VectorDocument list"

definition initializeWithGSARules :: SimpleVectorStore where
  \<comment> \<open>the constructor of \<open>SimpleVectorStore\<close>: the only assignment to \<open>documents\<close>\<close>
  "initializeWithGSARules =
     map (\<lambda>rule. \<lparr>doc_id = rule_id rule, doc_content = rule_content rule,
                  doc_metadata = \<lparr>md_title = rule_title rule, md_category = rule_category rule,
                                  md_severity = rule_severity rule\<rparr>\<rparr>) GSA_RULES"

definition score_words :: "string \<Rightarrow> string \<Rightarrow> string list \<Rightarrow> nat" where
  \<comment> \<open>the loop over \<open>queryWords\<close>\<close>
  "score_words content title queryWords =
     foldl (\<lambda>sc word.
        (sc + (if js_includes content word then 2 else 0))
           + (if js_includes title word then 3 else 0)) 0 queryWords"

definition score :: "string \<Rightarrow> VectorDocument \<Rightarrow> nat" where
  "score query doc =
     score_words (js_lower (doc_content doc)) (js_lower (md_title (doc_metadata doc)))
       (js_split_spaces query)"

definition query_result :: "(VectorDocument \<times> nat) list \<Rightarrow> QueryResult" where
  \<comment> \<open>the object returned for \<open>topResults\<close>\<close>
  "query_result topResults =
     \<lparr>ids = map (\<lambda>item. doc_id (fst item)) topResults,
      documents = map (\<lambda>item. doc_content (fst item)) topResults,
      metadatas = map (\<lambda>item. doc_metadata (fst item)) topResults,
      distances = map (\<lambda>item. One_minus_tenth_of (snd item)) topResults\<rparr>"

definition top_results :: "SimpleVectorStore \<Rightarrow> string \<Rightarrow> int \<Rightarrow> (VectorDocument \<times> nat) list" where
  \<comment> \<open>\<open>scored.filter(..).sort(..).slice(0, nResults)\<close>; \<open>sort\<close> is stable\<close>
  "top_results store query n =
     js_slice0
       (sort_key (\<lambda>item. - int (snd item))
          (filter (\<lambda>item. 0 < snd item) (map (\<lambda>doc. (doc, score query doc)) store))) n"

definition store_query ::
  "SimpleVectorStore \<Rightarrow> query_options \<Rightarrow> (js_error + QueryResult) \<times> SimpleVectorStore"
where
  \<comment> \<open>\<open>SimpleVectorStore.query\<close>, with the store it leaves; \<open>queryTexts[0]\<close> of an empty
      array is \<open>undefined\<close>, and \<open>toLowerCase\<close> of it throws\<close>
  "store_query store options =
     (case queryTexts options of
        [] \<Rightarrow> (Inl TypeError, store)
      | q0 # _ \<Rightarrow>
          (Inr (query_result
             (top_results store (js_lower q0)
                (case nResults options of None \<Rightarrow> 5 | Some n \<Rightarrow> n))),
           store))"

text \<open>
  The module keeps one \<open>collection\<close>, undefined until \<open>initializeVectorStore\<close> has
  run.
\<close>

definition initializeVectorStore :: "SimpleVectorStore option" where
  "initializeVectorStore = Some initializeWithGSARules"

definition queryRules ::
  "SimpleVectorStore option \<Rightarrow> string \<Rightarrow> int
     \<Rightarrow> (js_error + QueryResult) \<times> SimpleVectorStore option"
where
  \<comment> \<open>a caller that leaves \<open>nResults\<close> out passes 3; the pipeline passes 5\<close>
  "queryRules collection query n =
     (case collection of
        None \<Rightarrow> (Inl (Error ''Vector store not initialized''), collection)
      | Some store \<Rightarrow>
          (case store_query store \<lparr>queryTexts = [query], nResults = Some n\<rparr> of
             (result, store') \<Rightarrow> (result, Some store')))"


section \<open>The compliance evaluator (\<open>generateChecklist\<close> in \<open>src/services/aiService.ts\<close>)\<close>

record ChecklistItem =
  requirement :: string
  status :: string
  evidence :: string
  ruleId :: string
  severity :: string

record relevant_rule =
  rr_id :: string
  rr_content :: string
  rr_metadata :: rule_metadata

type_synonym field_map = "(string \<times> json) list"

definition uei_pattern_test :: "string \<Rightarrow> bool" where
  \<comment> \<open>\<open>/^[A-Z0-9]{12}$/.test(s)\<close>\<close>
  "uei_pattern_test s \<longleftrightarrow> length s = 12 \<and> list_all (\<lambda>c. is_upper c \<or> is_digit c) s"

definition uei_not_found :: ChecklistItem where
  "uei_not_found =
     \<lparr>requirement = ''Valid UEI Required'', status = ''non_compliant'',
      evidence = ''UEI not found in document'', ruleId = ''R1'', severity = ''critical''\<rparr>"

definition check_uei :: "js_runtime \<Rightarrow> field_map \<Rightarrow> json \<Rightarrow> js_error + ChecklistItem list" where
  \<comment> \<open>"Check UEI requirement (R1)": \<open>test\<close> and the template convert \<open>uei\<close> to a string\<close>
  "check_uei rt flds documentType =
     (if documentType = JStr ''company_profile'' then
        (case map_of flds ''UEI'' of
           None \<Rightarrow> Inr [uei_not_found]
         | Some uei \<Rightarrow>
             if \<not> js_truthy (Some uei) then Inr [uei_not_found]
             else
               (case js_to_string rt uei of
                  Inl e \<Rightarrow> Inl e
                | Inr s \<Rightarrow>
                    if \<not> uei_pattern_test s then
                      Inr [\<lparr>requirement = ''Valid UEI Required'', status = ''non_compliant'',
                            evidence = ''Invalid UEI format: '' @ s, ruleId = ''R1'',
                            severity = ''critical''\<rparr>]
                    else
                      Inr [\<lparr>requirement = ''Valid UEI Required'', status = ''compliant'',
                            evidence = ''Valid UEI found: '' @ s, ruleId = ''R1'',
                            severity = ''critical''\<rparr>]))
      else Inr [])"

definition check_naics :: "js_runtime \<Rightarrow> field_map \<Rightarrow> json \<Rightarrow> js_error + ChecklistItem list" where
  \<comment> \<open>"Check NAICS to SIN mapping (R2)": skipped when \<open>fields.NAICS_codes\<close> is falsy\<close>
  "check_naics rt flds documentType =
     (if documentType = JStr ''company_profile'' \<and> js_truthy (map_of flds ''NAICS_codes'') then
        (case map_of flds ''NAICS_codes'' of
           None \<Rightarrow> Inr []
         | Some codes \<Rightarrow>
             (let naicsCodes = (case codes of JArr xs \<Rightarrow> xs | _ \<Rightarrow> [codes])
              in if 0 < length naicsCodes then
                   (case js_array_join rt '', '' naicsCodes of
                      Inl e \<Rightarrow> Inl e
                    | Inr joined \<Rightarrow>
                        Inr [\<lparr>requirement = ''NAICS Code to SIN Mapping'', status = ''needs_review'',
                              evidence = ''Found '' @ decimal (length naicsCodes) @
                                '' NAICS code(s): '' @ joined @ ''. Requires mapping verification.'',
                              ruleId = ''R2'', severity = ''high''\<rparr>])
                 else
                   Inr [\<lparr>requirement = ''NAICS Code to SIN Mapping'', status = ''non_compliant'',
                         evidence = ''No NAICS codes found in document'', ruleId = ''R2'',
                         severity = ''high''\<rparr>]))
      else Inr [])"

definition check_contract_value ::
  "js_runtime \<Rightarrow> field_map \<Rightarrow> json \<Rightarrow> js_error + ChecklistItem list"
where
  \<comment> \<open>"Check contract value threshold (R3)": skipped when \<open>fields.contract_value\<close> is
      \<open>undefined\<close>; \<open>null\<close> is not \<open>undefined\<close>\<close>
  "check_contract_value rt flds documentType =
     (if documentType = JStr ''past_performance'' then
        (case map_of flds ''contract_value'' of
           None \<Rightarrow> Inr []
         | Some contract_value \<Rightarrow>
             (case js_to_string rt contract_value of
                Inl e \<Rightarrow> Inl e
              | Inr s \<Rightarrow>
                  (let v = parse_float rt (filter (\<lambda>c. is_digit c \<or> c = CHR ''.'') s)
                   in if js_ge v (Fin 25000) then
                        Inr [\<lparr>requirement = ''Contract Value >= $25,000'', status = ''compliant'',
                              evidence = ''Contract value: $'' @ to_locale_string rt v,
                              ruleId = ''R3'', severity = ''high''\<rparr>]
                      else
                        Inr [\<lparr>requirement = ''Contract Value >= $25,000'',
                              status = ''non_compliant'',
                              evidence = ''Contract value $'' @ to_locale_string rt v @
                                '' is below $25,000 threshold'',
                              ruleId = ''R3'', severity = ''high''\<rparr>])))
      else Inr [])"

definition check_labor_categories :: "field_map \<Rightarrow> json \<Rightarrow> ChecklistItem list" where
  \<comment> \<open>"Check pricing requirements (R4)"\<close>
  "check_labor_categories flds documentType =
     (if documentType = JStr ''pricing_sheet'' then
        (case map_of flds ''labor_categories'' of
           Some (JArr xs) \<Rightarrow>
             if 0 < length xs then
               [\<lparr>requirement = ''Labor Category Details'', status = ''compliant'',
                 evidence = ''Found '' @ decimal (length xs) @ '' labor categories with details'',
                 ruleId = ''R4'', severity = ''medium''\<rparr>]
             else
               [\<lparr>requirement = ''Labor Category Details'', status = ''non_compliant'',
                 evidence = ''Labor categories missing or incomplete'', ruleId = ''R4'',
                 severity = ''medium''\<rparr>]
         | _ \<Rightarrow>
             [\<lparr>requirement = ''Labor Category Details'', status = ''non_compliant'',
               evidence = ''Labor categories missing or incomplete'', ruleId = ''R4'',
               severity = ''medium''\<rparr>])
      else [])"

definition generateChecklist ::
  "js_runtime \<Rightarrow> field_map \<Rightarrow> json \<Rightarrow> relevant_rule list \<Rightarrow> js_error + ChecklistItem list"
where
  \<comment> \<open>the four blocks in order; \<open>_relevantRules\<close> is not read\<close>
  "generateChecklist rt flds documentType relevantRules =
     (case check_uei rt flds documentType of
        Inl e \<Rightarrow> Inl e
      | Inr r1 \<Rightarrow>
          (case check_naics rt flds documentType of
             Inl e \<Rightarrow> Inl e
           | Inr r2 \<Rightarrow>
               (case check_contract_value rt flds documentType of
                  Inl e \<Rightarrow> Inl e
                | Inr r3 \<Rightarrow> Inr (r1 @ r2 @ r3 @ check_labor_categories flds documentType))))"

section \<open>The classifier and the extractor (\<open>src/services/aiService.ts\<close>)\<close>

text \<open>
  The language model is outside the program. What enters the model is what the program
  gets back from one call: for the classifier and the extractor the object that
  \<open>JSON.parse\<close> builds from the stretch of the reply between the first \<open>{\<close> and the
  last \<open>}\<close>, or \<open>LlmFailed\<close> when \<open>callOllama\<close> throws, the reply holds no such
  stretch, or \<open>JSON.parse\<close> throws; for the two prose generators the text of the
  reply, or \<open>NoText\<close> when \<open>callOllama\<close> throws. The prompts are not modelled.
\<close>

datatype llm_reply = LlmFailed | LlmJson field_map

datatype llm_text = NoText | LlmText string

record ClassificationResult =
  documentType :: json
  confidence :: json
  reasoning :: json
  shouldAbstain :: bool

definition classification_failed :: ClassificationResult where
  \<comment> \<open>the value returned from the \<open>catch\<close> block of \<open>classifyDocument\<close>\<close>
  "classification_failed =
     \<lparr>documentType = JStr ''unknown'', confidence = JNum (Fin 0),
      reasoning = JStr ''Classification failed due to error'', shouldAbstain = True\<rparr>"

definition classifyDocument :: "js_runtime \<Rightarrow> jsnum \<Rightarrow> llm_reply \<Rightarrow> ClassificationResult" where
  \<comment> \<open>\<open>CONFIDENCE_THRESHOLD\<close> is read from the environment, \<open>0.8\<close> by default; the
      comparison converts \<open>result.confidence\<close> to a number and may throw inside the
      \<open>try\<close> block\<close>
  "classifyDocument rt CONFIDENCE_THRESHOLD reply =
     (case reply of
        LlmFailed \<Rightarrow> classification_failed
      | LlmJson result \<Rightarrow>
          (case js_less_number rt (map_of result ''confidence'') CONFIDENCE_THRESHOLD of
             Inl e \<Rightarrow> classification_failed
           | Inr below \<Rightarrow>
               \<lparr>documentType = js_or (map_of result ''documentType'') (JStr ''unknown''),
                confidence = js_or (map_of result ''confidence'') (JNum (Fin 0)),
                reasoning = js_or (map_of result ''reasoning'') (JStr ''No reasoning provided''),
                shouldAbstain = below\<rparr>))"

text \<open>
  The confidence of an extraction is \<open>extractedCount / fieldsToExtract.length\<close> on
  doubles; the model keeps the two integers.
\<close>

datatype quotient = Quotient nat nat

record FieldExtractionResult =
  ex_fields :: field_map
  ex_confidence :: quotient
  extractedCount :: nat

definition extraction_empty :: FieldExtractionResult where
  "extraction_empty = \<lparr>ex_fields = [], ex_confidence = Quotient 0 1, extractedCount = 0\<rparr>"

definition fieldsToExtract :: "json \<Rightarrow> string list option" where
  \<comment> \<open>the \<open>switch\<close> on the document type; \<open>None\<close> is the \<open>default\<close> branch\<close>
  "fieldsToExtract dt =
     (if dt = JStr ''company_profile'' then
        Some [''UEI'', ''DUNS'', ''company_name'', ''NAICS_codes'', ''cage_code'']
      else if dt = JStr ''past_performance'' then
        Some [''contract_number'', ''client_name'', ''contract_value'', ''start_date'',
              ''end_date'', ''description'']
      else if dt = JStr ''pricing_sheet'' then
        Some [''labor_categories'', ''rates'', ''geographic_location'', ''escalation_rate'']
      else None)"

definition extractFields :: "json \<Rightarrow> llm_reply \<Rightarrow> FieldExtractionResult" where
  \<comment> \<open>the \<open>default\<close> branch returns before the model is called\<close>
  "extractFields dt reply =
     (case fieldsToExtract dt of
        None \<Rightarrow> extraction_empty
      | Some names \<Rightarrow>
          (case reply of
             LlmFailed \<Rightarrow> extraction_empty
           | LlmJson flds \<Rightarrow>
               (let n = length (filter (\<lambda>v. v \<noteq> JNull \<and> v \<noteq> JStr []) (map snd flds))
                in \<lparr>ex_fields = flds, ex_confidence = Quotient n (length names),
                    extractedCount = n\<rparr>)))"

definition generateNegotiationBrief :: "llm_text \<Rightarrow> string" where
  "generateNegotiationBrief reply =
     (case reply of
        NoText \<Rightarrow> ''Unable to generate negotiation brief due to AI service error.''
      | LlmText brief \<Rightarrow> js_trim brief)"

definition generateClientEmail :: "js_runtime \<Rightarrow> json \<Rightarrow> llm_text \<Rightarrow> js_error + string" where
  \<comment> \<open>the prompt is built before the \<open>try\<close> block and converts \<open>companyName\<close> to a
      string\<close>
  "generateClientEmail rt companyName reply =
     (case js_to_string rt companyName of
        Inl e \<Rightarrow> Inl e
      | Inr name \<Rightarrow>
          (case reply of
             NoText \<Rightarrow> Inr ''Unable to generate client email due to AI service error.''
           | LlmText email \<Rightarrow> Inr (js_trim email)))"

section \<open>The pipeline (\<open>src/routes/analyze.ts\<close>, \<open>src/middleware/errorHandler.ts\<close>)\<close>

text \<open>
  The repository is the table \<open>analysis_results\<close>, read as a map from the identifier
  of an analysis to its row. A row holds the values as they are handed to the
  repository, not what SQLite makes of them; the stored checklist and citations are kept
  as values next to the JSON text that \<open>JSON.stringify\<close> makes of them.

  \<open>create\<close> inserts a row and \<open>update\<close> changes the named columns of the row with the
  given identifier. Both hand their values to \<open>run\<close> of a prepared statement of
  better-sqlite3, a library outside the repository. \<open>run\<close> binds a string, a number and
  \<open>null\<close>. What it does with another value (a boolean, an array, an object) is a
  parameter of the model: the error it throws, or \<open>None\<close> when it binds the values of
  the call. \<open>create\<close> hands strings and \<open>null\<close> only.
\<close>

record AnalysisResult =
  request_id :: string
  document_classification :: "json option"
  classification_confidence :: "json option"
  checklist_items :: "ChecklistItem list option"
  negotiation_brief :: "string option"
  client_email :: "string option"
  rule_citations :: "string list option"
  analysis_status :: string
  error_message :: "string option"

type_synonym analysis_db = "string \<rightharpoonup> AnalysisResult"

type_synonym sqlite = "json list \<Rightarrow> js_error option"

fun bindable :: "json \<Rightarrow> bool" where
  "bindable JNull = True"
| "bindable (JNum n) = True"
| "bindable (JStr s) = True"
| "bindable (JBool b) = False"
| "bindable (JArr xs) = False"
| "bindable (JObj kvs) = False"

definition stmt_run :: "sqlite \<Rightarrow> json list \<Rightarrow> js_error option" where
  \<comment> \<open>\<open>stmt.run(...values)\<close>: the error thrown, if any\<close>
  "stmt_run other_values vs = (if list_all bindable vs then None else other_values vs)"

definition AnalysisRepository_create :: "analysis_db \<Rightarrow> string \<Rightarrow> AnalysisResult \<Rightarrow> analysis_db" where
  "AnalysisRepository_create db aid row = db(aid \<mapsto> row)"

definition AnalysisRepository_update ::
  "sqlite \<Rightarrow> analysis_db \<Rightarrow> string \<Rightarrow> json list \<Rightarrow> (AnalysisResult \<Rightarrow> AnalysisResult)
     \<Rightarrow> js_error + analysis_db"
where
  \<comment> \<open>\<open>stmt.run(...values, id)\<close>, then the change of the named columns\<close>
  "AnalysisRepository_update other_values db aid vs change =
     (case stmt_run other_values (vs @ [JStr aid]) of
        Some e \<Rightarrow> Inl e
      | None \<Rightarrow> Inr (case db aid of None \<Rightarrow> db | Some row \<Rightarrow> db(aid \<mapsto> change row)))"

definition checklist_json :: "ChecklistItem list \<Rightarrow> json" where
  \<comment> \<open>the checklist as \<open>JSON.stringify\<close> sees it\<close>
  "checklist_json checklist =
     JArr (map (\<lambda>item. JObj [(''requirement'', JStr (requirement item)),
                              (''status'', JStr (status item)),
                              (''evidence'', JStr (evidence item)),
                              (''ruleId'', JStr (ruleId item)),
                              (''severity'', JStr (severity item))]) checklist)"

record stored_document =
  redacted_content :: "string option"

datatype response_body =
    ErrorBody string
  | WarningBody ClassificationResult
  | SuccessBody ClassificationResult FieldExtractionResult "string list" "ChecklistItem list"
      string string

record http_response =
  res_status :: nat
  res_body :: response_body

record analyze_env =
  env_runtime :: js_runtime
  env_sqlite :: sqlite
  env_threshold :: jsnum
  env_collection :: "SimpleVectorStore option"
  env_documents :: "string \<Rightarrow> stored_document list"
  env_analysisId :: string
  env_classification :: llm_reply
  env_extraction :: llm_reply
  env_brief :: llm_text
  env_email :: llm_text

type_synonym run = "(js_error + http_response) \<times> analysis_db \<times> string list"

definition rules_data :: "QueryResult \<Rightarrow> relevant_rule list" where
  \<comment> \<open>\<open>relevantRules.ids.map((id, index) => ...)\<close>; the three arrays have one length\<close>
  "rules_data relevantRules =
     map (\<lambda>(i, c, m). \<lparr>rr_id = i, rr_content = c, rr_metadata = m\<rparr>)
       (zip (ids relevantRules) (zip (documents relevantRules) (metadatas relevantRules)))"

definition store_results ::
  "analyze_env \<Rightarrow> ClassificationResult \<Rightarrow> FieldExtractionResult \<Rightarrow> QueryResult
     \<Rightarrow> ChecklistItem list \<Rightarrow> string \<Rightarrow> string \<Rightarrow> analysis_db \<Rightarrow> string list \<Rightarrow> run"
where
  \<comment> \<open>"Update analysis with results", and the answer\<close>
  "store_results env classification fieldExtraction relevantRules checklist negotiationBrief
       clientEmail db logged =
     (case AnalysisRepository_update (env_sqlite env) db (env_analysisId env)
             [JStr (json_stringify (env_runtime env) (checklist_json checklist)),
              JStr negotiationBrief, JStr clientEmail,
              JStr (json_stringify (env_runtime env) (JArr (map JStr (ids relevantRules)))),
              JStr ''completed'']
             (\<lambda>row. row\<lparr>checklist_items := Some checklist,
                        negotiation_brief := Some negotiationBrief,
                        client_email := Some clientEmail,
                        rule_citations := Some (ids relevantRules),
                        analysis_status := ''completed''\<rparr>) of
        Inl e \<Rightarrow> (Inl e, db, logged)
      | Inr db' \<Rightarrow>
          (Inr \<lparr>res_status = 200,
                 res_body = SuccessBody classification fieldExtraction (ids relevantRules)
                   checklist negotiationBrief clientEmail\<rparr>,
           db', logged @ [''Document analysis completed successfully'']))"

definition analysis_steps ::
  "analyze_env \<Rightarrow> ClassificationResult \<Rightarrow> analysis_db \<Rightarrow> string list \<Rightarrow> run"
where
  \<comment> \<open>steps 2 to 6 of the handler, after the classification has been stored\<close>
  "analysis_steps env classification db logged =
     (let rt = env_runtime env;
          log2 = logged @ [''Extracting fields''];
          fieldExtraction = extractFields (documentType classification) (env_extraction env);
          log3 = log2 @ [''Querying relevant rules'']
      in case js_to_string rt (documentType classification) of
           Inl e \<Rightarrow> (Inl e, db, log3)
         | Inr type_name \<Rightarrow>
             (let ruleQuery = type_name @ '' compliance requirements '' @
                    json_stringify rt (JObj (ex_fields fieldExtraction))
              in case fst (queryRules (env_collection env) ruleQuery 5) of
                   Inl e \<Rightarrow> (Inl e, db, log3)
                 | Inr relevantRules \<Rightarrow>
                     (let log4 = log3 @ [''Generating compliance checklist'']
                      in case generateChecklist rt (ex_fields fieldExtraction)
                                (documentType classification) (rules_data relevantRules) of
                           Inl e \<Rightarrow> (Inl e, db, log4)
                         | Inr checklist \<Rightarrow>
                             (let log5 = log4 @ [''Generating negotiation brief''];
                                  negotiationBrief = generateNegotiationBrief (env_brief env);
                                  log6 = log5 @ [''Generating client email''];
                                  companyName =
                                    js_or (map_of (ex_fields fieldExtraction) ''company_name'')
                                      (JStr ''valued partner'')
                              in case generateClientEmail rt companyName (env_email env) of
                                   Inl e \<Rightarrow> (Inl e, db, log6)
                                 | Inr clientEmail \<Rightarrow>
                                     store_results env classification fieldExtraction
                                       relevantRules checklist negotiationBrief clientEmail
                                       db log6))))"

definition abstain :: "analyze_env \<Rightarrow> ClassificationResult \<Rightarrow> analysis_db \<Rightarrow> string list \<Rightarrow> run" where
  \<comment> \<open>"If classification abstained, return early": the template converts the reasoning
      to a string\<close>
  "abstain env classification db logged =
     (case js_to_string (env_runtime env) (reasoning classification) of
        Inl e \<Rightarrow> (Inl e, db, logged)
      | Inr reason \<Rightarrow>
          (case AnalysisRepository_update (env_sqlite env) db (env_analysisId env)
                  [JStr ''completed_with_warnings'',
                   JStr (''Low confidence classification: '' @ reason)]
                  (\<lambda>row. row\<lparr>analysis_status := ''completed_with_warnings'',
                             error_message :=
                               Some (''Low confidence classification: '' @ reason)\<rparr>) of
             Inl e \<Rightarrow> (Inl e, db, logged)
           | Inr db' \<Rightarrow>
               (Inr \<lparr>res_status = 200, res_body = WarningBody classification\<rparr>, db', logged)))"

definition analysis_run :: "analyze_env \<Rightarrow> string + string \<Rightarrow> analysis_db \<Rightarrow> run" where
  \<comment> \<open>the \<open>try\<close> block of the handler; the second argument is what
      \<open>analyzeSchema.validate\<close> gives: an error message or the request identifier\<close>
  "analysis_run env validation db =
     (case validation of
        Inl message \<Rightarrow> (Inl (AppError 400 message), db, [])
      | Inr rid \<Rightarrow>
          (let rt = env_runtime env;
               aid = env_analysisId env;
               log0 = [''Starting document analysis'']
           in case env_documents env rid of
                [] \<Rightarrow> (Inl (AppError 404 (''No documents found for request_id: '' @ rid)), db, log0)
              | document # _ \<Rightarrow>
                  (let db0 = AnalysisRepository_create db aid
                         \<lparr>request_id = rid, document_classification = None,
                          classification_confidence = None, checklist_items = None,
                          negotiation_brief = None, client_email = None,
                          rule_citations = None, analysis_status = ''processing'',
                          error_message = None\<rparr>;
                       log1 = log0 @ [''Classifying document''];
                       classification =
                         classifyDocument rt (env_threshold env) (env_classification env)
                   in case AnalysisRepository_update (env_sqlite env) db0 aid
                             [documentType classification, confidence classification]
                             (\<lambda>row. row\<lparr>document_classification :=
                                          Some (documentType classification),
                                        classification_confidence :=
                                          Some (confidence classification)\<rparr>) of
                        Inl e \<Rightarrow> (Inl e, db0, log1)
                      | Inr db1 \<Rightarrow>
                          if shouldAbstain classification
                          then abstain env classification db1 log1
                          else analysis_steps env classification db1 log1)))"

definition errorHandler :: "js_error \<Rightarrow> http_response \<times> string" where
  \<comment> \<open>the response, and the message it logs\<close>
  "errorHandler err =
     (case err of
        AppError statusCode message \<Rightarrow>
          (\<lparr>res_status = statusCode, res_body = ErrorBody message\<rparr>, ''Application Error:'')
      | _ \<Rightarrow>
          (\<lparr>res_status = 500, res_body = ErrorBody ''An unexpected error occurred''\<rparr>,
           ''Unexpected Error:''))"

definition analyze ::
  "analyze_env \<Rightarrow> string + string \<Rightarrow> analysis_db \<Rightarrow> http_response \<times> analysis_db \<times> string list"
where
  \<comment> \<open>the handler of \<open>POST /api/analyze\<close>: the \<open>catch\<close> block logs the error and hands it
      to \<open>errorHandler\<close>; it does not touch the repository\<close>
  "analyze env validation db =
     (case analysis_run env validation db of
        (Inr response, db', logged) \<Rightarrow> (response, db', logged)
      | (Inl err, db', logged) \<Rightarrow>
          (fst (errorHandler err), db', logged @ [''Analysis failed'', snd (errorHandler err)]))"

section \<open>Inputs of the examples\<close>

definition default_threshold :: jsnum where
  \<comment> \<open>\<open>parseFloat('0.8')\<close>: the double next to \<open>0.8\<close>\<close>
  "default_threshold = Fin (3602879701896397 / 4503599627370496)"

definition company_profile_fields :: field_map where
  "company_profile_fields =
     [(''UEI'', JStr ''A1B2C3D4E5F6''), (''DUNS'', JStr ''123456789''),
      (''company_name'', JStr ''Test Company LLC''),
      (''NAICS_codes'', JArr [JStr ''541512'', JStr ''541519'']),
      (''cage_code'', JStr ''1A2B3'')]"

definition one_document :: "string \<Rightarrow> stored_document list" where
  "one_document rid = [\<lparr>redacted_content = Some ''COMPANY PROFILE UEI: A1B2C3D4E5F6''\<rparr>]"

definition confident_reply :: llm_reply where
  \<comment> \<open>a reply with \<open>"confidence": 0.95\<close>, read as the double next to \<open>0.95\<close>\<close>
  "confident_reply =
     LlmJson [(''documentType'', JStr ''company_profile''),
              (''confidence'', JNum (Fin (4278419646001971 / 4503599627370496))),
              (''reasoning'', JStr ''Lists UEI, DUNS and NAICS codes'')]"

definition reply_without_confidence :: llm_reply where
  "reply_without_confidence =
     LlmJson [(''documentType'', JStr ''company_profile''),
              (''reasoning'', JStr ''Lists UEI, DUNS and NAICS codes'')]"

section \<open>What the specification asks of the redaction engine\<close>

text \<open>
  The specification describes the redacted text from the original text and the matches
  at their original offsets: all matches of all categories, sorted by start offset, with
  the category placeholder spliced in for each matched span in one pass, and every other
  span kept. \<open>spliced_text\<close> follows these words; it is not taken from the code.
\<close>

fun pattern_spans ::
  "(pii_type \<times> regex) list \<Rightarrow> string \<Rightarrow> (nat \<times> nat \<times> pii_type) list option"
where
  "pattern_spans [] text = Some []"
| "pattern_spans ((ty, pattern) # rest) text =
     (case exec_loop pattern text 0 of
        None \<Rightarrow> None
      | Some found \<Rightarrow>
          (case pattern_spans rest text of
             None \<Rightarrow> None
           | Some others \<Rightarrow> Some (map (\<lambda>(s, e). (s, e, ty)) found @ others)))"

definition original_spans :: "string \<Rightarrow> (nat \<times> nat \<times> pii_type) list option" where
  "original_spans text = map_option (sort_key fst) (pattern_spans PII_PATTERNS text)"

fun splice :: "string \<Rightarrow> nat \<Rightarrow> (nat \<times> nat \<times> pii_type) list \<Rightarrow> string" where
  "splice text pos [] = drop pos text"
| "splice text pos ((s, e, ty) # rest) =
     take (s - pos) (drop pos text) @ REDACTION_LABELS ty @ splice text (max pos e) rest"

definition spliced_text :: "string \<Rightarrow> string option" where
  "spliced_text text = map_option (splice text 0) (original_spans text)"

definition disclosed :: "RedactionMatch \<Rightarrow> pii_type \<times> string \<times> digest" where
  \<comment> \<open>what a returned match tells besides its offsets\<close>
  "disclosed m = (m_type m, m_value m, m_hash m)"

definition matched_literal :: "string \<Rightarrow> nat \<times> nat \<times> pii_type \<Rightarrow> pii_type \<times> string \<times> digest" where
  \<comment> \<open>the category of a span of the original text, its literal \<open>text[s : e]\<close> and the
      digest of the literal\<close>
  "matched_literal text found =
     (case found of (s, e, ty) \<Rightarrow>
        (ty, take (e - s) (drop s text), hashValue (take (e - s) (drop s text))))"

text \<open>Notions used in the proofs.\<close>

fun consumes :: "regex \<Rightarrow> bool" where
  \<comment> \<open>a sufficient condition for a pattern to match no empty string\<close>
  "consumes Eps = False"
| "consumes (Cls p) = True"
| "consumes WordB = False"
| "consumes (Seq a b) = (consumes a \<or> consumes b)"
| "consumes (Opt a) = False"
| "consumes (Many n p) = (0 < n)"

fun chained :: "nat \<Rightarrow> (nat \<times> nat) list \<Rightarrow> bool" where
  \<comment> \<open>non-empty spans from \<open>i\<close> on, each starting no earlier than the one before ends\<close>
  "chained i [] = True"
| "chained i ((s, e) # ms) = (i \<le> s \<and> s < e \<and> chained e ms)"

definition moved :: "int \<Rightarrow> RedactionMatch \<Rightarrow> RedactionMatch" where
  "moved adj m =
     m\<lparr>m_start := m_start m + adj,
       m_end := m_start m + adj + int (length (REDACTION_LABELS (m_type m)))\<rparr>"

definition replace_span :: "string \<Rightarrow> RedactionMatch \<Rightarrow> string" where
  "replace_span redacted m =
     js_substring redacted 0 (m_start m) @ REDACTION_LABELS (m_type m) @
     js_substring_from redacted (m_end m)"

definition never_failed :: "analysis_db \<Rightarrow> bool" where
  \<comment> \<open>no row of the repository has the status \<open>failed\<close>\<close>
  "never_failed db \<longleftrightarrow> (\<forall>k row. db k = Some row \<longrightarrow> analysis_status row \<noteq> ''failed'')"

section \<open>The redaction engine: lemmas\<close>


lemma ends_ge: "e \<in> set (ends r t i) \<Longrightarrow> i \<le> e"
proof (induction r arbitrary: i e)
  case (Seq a b)
  then obtain j where "j \<in> set (ends a t i)" "e \<in> set (ends b t j)" by auto
  with Seq.IH show ?case by (meson le_trans)
next
  case (Many n p)
  then show ?case by (auto simp: Let_def split: if_splits)
qed (auto split: if_splits)

lemma ends_gt: "consumes r \<Longrightarrow> e \<in> set (ends r t i) \<Longrightarrow> i < e"
proof (induction r arbitrary: i e)
  case Eps
  then show ?case by simp
next
  case (Cls p)
  then show ?case by (simp split: if_splits)
next
  case WordB
  then show ?case by simp
next
  case (Seq a b)
  from Seq.prems(2) obtain j where j: "j \<in> set (ends a t i)" "e \<in> set (ends b t j)" by auto
  from Seq.prems(1) consider "consumes a" | "consumes b" by auto
  then show ?case
  proof cases
    case 1
    from Seq.IH(1)[OF 1 j(1)] have "i < j" .
    moreover have "j \<le> e" using j(2) by (rule ends_ge)
    ultimately show ?thesis by simp
  next
    case 2
    from Seq.IH(2)[OF 2 j(2)] have "j < e" .
    moreover have "i \<le> j" using j(1) by (rule ends_ge)
    ultimately show ?thesis by simp
  qed
next
  case (Opt r)
  then show ?case by simp
next
  case (Many n p)
  then show ?case by (auto simp: Let_def split: if_splits)
qed

lemma length_takeWhile_drop: "i \<le> length t \<Longrightarrow> i + length (takeWhile p (drop i t)) \<le> length t"
proof -
  assume "i \<le> length t"
  moreover have "length (takeWhile p (drop i t)) \<le> length (drop i t)" by (rule length_takeWhile_le)
  ultimately show ?thesis by simp
qed

lemma ends_le: "i \<le> length t \<Longrightarrow> e \<in> set (ends r t i) \<Longrightarrow> e \<le> length t"
proof (induction r arbitrary: i e)
  case Eps
  then show ?case by simp
next
  case (Cls p)
  then show ?case by (simp split: if_splits)
next
  case WordB
  then show ?case by (simp split: if_splits)
next
  case (Seq a b)
  from Seq.prems(2) obtain j where j: "j \<in> set (ends a t i)" "e \<in> set (ends b t j)" by auto
  from Seq.IH(1)[OF Seq.prems(1) j(1)] have "j \<le> length t" .
  from Seq.IH(2)[OF this j(2)] show ?case .
next
  case (Opt r)
  from Opt.prems(2) have "e = i \<or> e \<in> set (ends r t i)" by auto
  with Opt.IH[OF Opt.prems(1)] Opt.prems(1) show ?case by auto
next
  case (Many n p)
  from Many.prems(2) obtain j where "e = i + j" "j \<le> length (takeWhile p (drop i t))"
    by (auto simp: Let_def split: if_splits)
  with length_takeWhile_drop[OF Many.prems(1), of p] show ?case by simp
qed

lemma scan_Some: "scan r t i = Some (s, e) \<Longrightarrow> i \<le> s \<and> s \<le> length t \<and> e \<in> set (ends r t s)"
proof (induction r t i rule: scan.induct)
  case (1 r t i)
  from "1.prems" have lt: "\<not> length t < i"
    by (subst (asm) scan.simps) (simp split: if_splits)
  show ?case
  proof (cases "ends r t i")
    case Nil
    with "1.prems" lt have rec: "scan r t (Suc i) = Some (s, e)"
      by (subst (asm) scan.simps) simp
    from "1.IH"[OF lt Nil rec] show ?thesis by simp
  next
    case (Cons a list)
    with "1.prems" lt show ?thesis by (subst (asm) scan.simps) auto
  qed
qed

lemma exactly_numeral: "exactly (numeral k) r = Seq r (exactly (pred_numeral k) r)"
  by (simp add: numeral_eq_Suc)

lemma consumes_patterns: "consumes email_re" "consumes phone_re" "consumes ssn_re"
  by (simp_all add: email_re_def phone_re_def ssn_re_def lit_def exactly_numeral)

lemma exec_loop_total:
  assumes "consumes r"
  shows "\<exists>ms. exec_loop r t i = Some ms \<and> chained i ms \<and> (\<forall>m\<in>set ms. snd m \<le> length t)"
proof (induction "Suc (length t) - i" arbitrary: i rule: less_induct)
  case less
  show ?case
  proof (cases "scan r t i")
    case None
    then have "exec_loop r t i = Some []"
      by (subst exec_loop.simps) (simp add: regex_exec_def)
    then show ?thesis by simp
  next
    case (Some m)
    obtain s e where m: "m = (s, e)" by (cases m)
    from scan_Some[of r t i s e] Some m
    have se: "i \<le> s" "s \<le> length t" "e \<in> set (ends r t s)" by auto
    have lt: "s < e" using assms se(3) by (rule ends_gt)
    have le: "e \<le> length t" using se(2,3) by (rule ends_le)
    have "Suc (length t) - e < Suc (length t) - i" using se lt le by linarith
    from less[OF this] obtain ms where
      ms: "exec_loop r t e = Some ms" "chained e ms" "\<forall>m\<in>set ms. snd m \<le> length t" by blast
    have "exec_loop r t i = Some ((s, e) # ms)"
      by (subst exec_loop.simps) (simp add: regex_exec_def Some m ms(1))
    with ms se lt le show ?thesis by simp
  qed
qed

lemma apply_redactions_eq:
  "apply_redactions adj tms (redacted, ms) = (foldl replace_span redacted tms, ms @ map (moved adj) tms)"
proof (induction tms arbitrary: redacted ms)
  case Nil
  show ?case by simp
next
  case (Cons m tms)
  show ?case by (simp add: Cons.IH Let_def moved_def replace_span_def)
qed

lemma js_substring_span:
  "s \<le> e \<Longrightarrow> e \<le> length t \<Longrightarrow> js_substring t (int s) (int e) = take (e - s) (drop s t)"
  by (simp add: js_substring_def Let_def min_def max_def nat_diff_distrib')

lemma new_match_span:
  assumes "s < e" "e \<le> length text"
  shows "new_match ty text (s, e) =
     \<lparr>m_type = ty, m_value = take (e - s) (drop s text), m_start = int s, m_end = int e,
      m_hash = hashValue (take (e - s) (drop s text))\<rparr>"
proof -
  have v: "js_substring text (int s) (int e) = take (e - s) (drop s text)"
    using assms by (intro js_substring_span) simp_all
  have "length (take (e - s) (drop s text)) = e - s" using assms by simp
  then show ?thesis using assms by (simp add: new_match_def v Let_def)
qed

lemma chained_spans: "chained i ms \<Longrightarrow> m \<in> set ms \<Longrightarrow> fst m < snd m"
  by (induction i ms rule: chained.induct) auto

lemma insort_key_last: "\<forall>y\<in>set ys. f y < f x \<Longrightarrow> insort_key f x ys = ys @ [x]"
  for f :: "'a \<Rightarrow> int"
  by (induction ys) auto

lemma sort_key_descending:
  "sorted_wrt (<) (map m_start xs) \<Longrightarrow> sort_key (\<lambda>m. - m_start m) xs = rev xs"
proof (induction xs)
  case Nil
  show ?case by simp
next
  case (Cons x xs)
  from Cons.prems have sx: "sorted_wrt (<) (map m_start xs)" and lt: "\<forall>y\<in>set xs. m_start x < m_start y"
    by auto
  have "sort_key (\<lambda>m. - m_start m) (x # xs) = insort_key (\<lambda>m. - m_start m) x (rev xs)"
    by (simp add: Cons.IH[OF sx])
  also have "\<dots> = rev xs @ [x]"
    using lt by (intro insort_key_last) simp
  finally show ?case by simp
qed

lemma chained_starts:
  "chained i ms \<Longrightarrow> sorted_wrt (<) (map fst ms) \<and> (\<forall>m\<in>set ms. i \<le> fst m)"
proof (induction i ms rule: chained.induct)
  case (1 i)
  show ?case by simp
next
  case (2 i s e ms)
  then have "sorted_wrt (<) (map fst ms)" "\<forall>m\<in>set ms. e \<le> fst m" "i \<le> s" "s < e" by auto
  then show ?case by fastforce
qed

lemma new_match_start:
  "m_start (new_match ty text m) = int (fst m)"
  by (cases m) (simp add: new_match_def Let_def)

lemma sorted_new_matches:
  assumes "chained i found"
  shows "sorted_wrt (<) (map m_start (map (new_match ty text) found))"
proof -
  have "sorted_wrt (<) (map fst found)" using chained_starts[OF assms] by simp
  then have "sorted_wrt (<) (map (\<lambda>m. int (fst m)) found)"
    by (simp add: sorted_wrt_map)
  then show ?thesis by (simp add: new_match_start comp_def)
qed

lemma redact_type_found:
  assumes "exec_loop r text 0 = Some found" "chained 0 found"
  shows "\<exists>ms' adj'. redact_type text (ty, r) (redacted, ms, adj) =
     Some (foldl replace_span redacted (rev (map (new_match ty text) found)), ms', adj')"
  by (simp add: redact_type_def assms(1) apply_redactions_eq Let_def
      sort_key_descending[OF sorted_new_matches[OF assms(2)]])

lemma js_substring_prefix: "s \<le> length t \<Longrightarrow> js_substring t 0 (int s) = take s t"
proof -
  assume "s \<le> length t"
  then have "min (max (int s) 0) (int (length t)) = int s" by simp
  then show ?thesis by (simp add: js_substring_def Let_def)
qed

lemma js_substring_from_drop: "e \<le> length t \<Longrightarrow> js_substring_from t (int e) = drop e t"
proof -
  assume "e \<le> length t"
  then have "min (max (int e) 0) (int (length t)) = int e" by simp
  then show ?thesis by (simp add: js_substring_from_def js_substring_def Let_def)
qed

lemma replace_span_new_match:
  assumes "s < e" "e \<le> length text"
  shows "replace_span (take e text @ rest) (new_match ty text (s, e)) =
     take s text @ REDACTION_LABELS ty @ rest"
proof -
  have len: "length (take e text) = e" using assms by simp
  have "js_substring (take e text @ rest) 0 (int s) = take s (take e text @ rest)"
    using assms by (intro js_substring_prefix) simp
  also have "\<dots> = take s text" using assms by (simp add: min_absorb2)
  finally have a: "js_substring (take e text @ rest) 0 (int s) = take s text" .
  have "js_substring_from (take e text @ rest) (int e) = drop e (take e text @ rest)"
    using assms by (intro js_substring_from_drop) simp
  also have "\<dots> = rest" using len by simp
  finally have b: "js_substring_from (take e text @ rest) (int e) = rest" .
  have nm: "m_start (new_match ty text (s, e)) = int s" "m_end (new_match ty text (s, e)) = int e"
    "m_type (new_match ty text (s, e)) = ty"
    using assms by (simp_all add: new_match_span)
  show ?thesis by (simp only: replace_span_def nm a b)
qed

lemma foldl_replace_splice:
  assumes "chained p found" "\<forall>m\<in>set found. snd m \<le> length text" "p \<le> length text"
  shows "foldl replace_span text (rev (map (new_match ty text) found)) =
     take p text @ splice text p (map (\<lambda>(s, e). (s, e, ty)) found)"
  using assms
proof (induction p found rule: chained.induct)
  case (1 i)
  show ?case by simp
next
  case (2 i s e ms)
  from "2.prems" have c: "chained e ms" and le: "\<forall>m\<in>set ms. snd m \<le> length text"
    and e: "e \<le> length text" and se: "s < e" and i_s: "i \<le> s" by auto
  have ih: "foldl replace_span text (rev (map (new_match ty text) ms)) =
      take e text @ splice text e (map (\<lambda>(s, e). (s, e, ty)) ms)"
    using "2.IH"[OF c le e] .
  have "take i text @ take (s - i) (drop i text) = take s text"
    using i_s by (metis le_add_diff_inverse take_add)
  moreover have "max i e = e" using i_s se by simp
  ultimately show ?case
    using se e by (simp add: ih replace_span_new_match)
qed

lemma foldl_replace_all:
  assumes "chained 0 found" "\<forall>m\<in>set found. snd m \<le> length text"
  shows "foldl replace_span text (rev (map (new_match ty text) found)) =
     splice text 0 (map (\<lambda>(s, e). (s, e, ty)) found)"
  using foldl_replace_splice[OF assms, of ty] by simp

lemma sort_tagged:
  assumes "chained 0 found"
  shows "sort_key fst (map (\<lambda>(s, e). (s, e, ty)) found) = map (\<lambda>(s, e). (s, e, ty)) found"
proof -
  have "sorted_wrt (<) (map fst found)" using chained_starts[OF assms] by simp
  then have "sorted (map fst found)" by (rule strict_sorted_imp_sorted)
  moreover have "map fst (map (\<lambda>(s, e). (s, e, ty)) found) = map fst found"
    by (simp add: comp_def case_prod_beta)
  ultimately have "sorted (map fst (map (\<lambda>(s, e). (s, e, ty)) found))" by (simp only:)
  then show ?thesis by (rule sort_key_id_if_sorted)
qed

lemma single_category_splice:
  assumes sp: "original_spans text = Some sp" and one: "\<forall>x\<in>set sp. snd (snd x) = ty"
  shows "\<exists>res. redactPII text = Some res \<and> redactedText res = splice text 0 sp"
proof -
  from exec_loop_total[OF consumes_patterns(1), of "text" 0] obtain fe where
    fe: "exec_loop email_re text 0 = Some fe" "chained 0 fe" "\<forall>m\<in>set fe. snd m \<le> length text"
    by blast
  from exec_loop_total[OF consumes_patterns(2), of "text" 0] obtain fp where
    fp: "exec_loop phone_re text 0 = Some fp" "chained 0 fp" "\<forall>m\<in>set fp. snd m \<le> length text"
    by blast
  from exec_loop_total[OF consumes_patterns(3), of "text" 0] obtain fs where
    fs: "exec_loop ssn_re text 0 = Some fs" "chained 0 fs" "\<forall>m\<in>set fs. snd m \<le> length text"
    by blast
  let ?tag = "\<lambda>ty. map (\<lambda>(s, e). (s, e, ty))"
  have sp_eq: "sp = sort_key fst (?tag Email fe @ ?tag Phone fp @ ?tag Ssn fs)"
    using sp by (simp add: original_spans_def PII_PATTERNS_def fe(1) fp(1) fs(1))
  have set_sp: "set sp = set (?tag Email fe) \<union> set (?tag Phone fp) \<union> set (?tag Ssn fs)"
    by (simp add: sp_eq Un_assoc)
  have e0: "fe = []" if "ty \<noteq> Email"
  proof (cases fe)
    case (Cons x xs)
    obtain s e where "x = (s, e)" by (cases x)
    with Cons have "(s, e, Email) \<in> set sp" unfolding set_sp by force
    with one that show ?thesis by auto
  qed simp
  have p0: "fp = []" if "ty \<noteq> Phone"
  proof (cases fp)
    case (Cons x xs)
    obtain s e where "x = (s, e)" by (cases x)
    with Cons have "(s, e, Phone) \<in> set sp" unfolding set_sp by force
    with one that show ?thesis by auto
  qed simp
  have s0: "fs = []" if "ty \<noteq> Ssn"
  proof (cases fs)
    case (Cons x xs)
    obtain s e where "x = (s, e)" by (cases x)
    with Cons have "(s, e, Ssn) \<in> set sp" unfolding set_sp by force
    with one that show ?thesis by auto
  qed simp
  from redact_type_found[OF fe(1,2), of Email "text" "[]" 0]
  obtain ms1 a1 where s1: "redact_type text (Email, email_re) (text, [], 0) =
      Some (foldl replace_span text (rev (map (new_match Email text) fe)), ms1, a1)" by blast
  let ?t1 = "foldl replace_span text (rev (map (new_match Email text) fe))"
  from redact_type_found[OF fp(1,2), of Phone ?t1 ms1 a1]
  obtain ms2 a2 where s2: "redact_type text (Phone, phone_re) (?t1, ms1, a1) =
      Some (foldl replace_span ?t1 (rev (map (new_match Phone text) fp)), ms2, a2)" by blast
  let ?t2 = "foldl replace_span ?t1 (rev (map (new_match Phone text) fp))"
  from redact_type_found[OF fs(1,2), of Ssn ?t2 ms2 a2]
  obtain ms3 a3 where s3: "redact_type text (Ssn, ssn_re) (?t2, ms2, a2) =
      Some (foldl replace_span ?t2 (rev (map (new_match Ssn text) fs)), ms3, a3)" by blast
  let ?t3 = "foldl replace_span ?t2 (rev (map (new_match Ssn text) fs))"
  have res: "redactPII text = Some \<lparr>redactedText = ?t3, matches = sort_key m_start ms3,
      redactionCount = length (sort_key m_start ms3)\<rparr>"
    by (simp add: redactPII_def PII_PATTERNS_def s1 s2 s3 Let_def)
  have "?t3 = splice text 0 sp"
  proof (cases ty)
    case Email
    then have "fp = []" "fs = []" using p0 s0 by simp_all
    then show ?thesis
      by (simp add: sp_eq sort_tagged[OF fe(2)] foldl_replace_all[OF fe(2,3)])
  next
    case Phone
    then have "fe = []" "fs = []" using e0 s0 by simp_all
    then show ?thesis
      by (simp add: sp_eq sort_tagged[OF fp(2)] foldl_replace_all[OF fp(2,3)])
  next
    case Ssn
    then have "fe = []" "fp = []" using e0 p0 by simp_all
    then show ?thesis
      by (simp add: sp_eq sort_tagged[OF fs(2)] foldl_replace_all[OF fs(2,3)])
  qed
  with res show ?thesis by simp
qed

text \<open>
  The matches that \<open>redactPII\<close> returns are, up to their order, the spans that the
  three patterns match in the original text: each carries the category of its span, the
  literal \<open>text[s : e]\<close> of the span and the digest of this literal.
\<close>

lemma disclosed_moved: "disclosed (moved adj m) = disclosed m"
  by (simp add: disclosed_def moved_def)

lemma disclosed_new_match:
  "s < e \<Longrightarrow> e \<le> length text \<Longrightarrow>
     disclosed (new_match ty text (s, e)) = matched_literal text (s, e, ty)"
  by (simp add: disclosed_def matched_literal_def new_match_span)

lemma redact_type_discloses:
  assumes found: "exec_loop r text 0 = Some found" "chained 0 found"
      "\<forall>m\<in>set found. snd m \<le> length text"
  shows "\<exists>ms' adj'. redact_type text (ty, r) (redacted, ms, adj) =
       Some (foldl replace_span redacted (rev (map (new_match ty text) found)), ms', adj') \<and>
     mset (map disclosed ms') =
       mset (map disclosed ms) + mset (map (matched_literal text) (map (\<lambda>(s, e). (s, e, ty)) found))"
proof -
  let ?temp = "rev (map (new_match ty text) found)"
  have eq: "redact_type text (ty, r) (redacted, ms, adj) =
      Some (foldl replace_span redacted ?temp, ms @ map (moved adj) ?temp,
        adj + offset_change ?temp)"
    by (simp add: redact_type_def found(1) apply_redactions_eq Let_def
        sort_key_descending[OF sorted_new_matches[OF found(2)]])
  have each: "disclosed (moved adj (new_match ty text x)) =
      matched_literal text (case x of (s, e) \<Rightarrow> (s, e, ty))" if "x \<in> set found" for x
  proof -
    obtain s e where se: "x = (s, e)" by (cases x)
    have "s < e" using chained_spans[OF found(2) that] se by simp
    moreover have "e \<le> length text" using found(3) that se by auto
    ultimately show ?thesis by (simp add: se disclosed_moved disclosed_new_match)
  qed
  have "map disclosed (map (moved adj) (map (new_match ty text) found)) =
      map (matched_literal text) (map (\<lambda>(s, e). (s, e, ty)) found)"
    using each by (simp add: comp_def)
  then have "mset (map disclosed (map (moved adj) ?temp)) =
      mset (map (matched_literal text) (map (\<lambda>(s, e). (s, e, ty)) found))"
    by (simp only: rev_map[symmetric] mset_rev)
  then have "mset (map disclosed (ms @ map (moved adj) ?temp)) =
      mset (map disclosed ms) + mset (map (matched_literal text) (map (\<lambda>(s, e). (s, e, ty)) found))"
    by simp
  with eq show ?thesis by blast
qed

lemma tagged_span:
  assumes "chained 0 found" "\<forall>m\<in>set found. snd m \<le> length text"
    and "x \<in> set (map (\<lambda>(s, e). (s, e, ty)) found)"
  shows "fst x < fst (snd x) \<and> fst (snd x) \<le> length text"
proof -
  from assms(3) obtain s e where se: "(s, e) \<in> set found" "x = (s, e, ty)" by auto
  from chained_spans[OF assms(1) se(1)] assms(2) se show ?thesis by auto
qed

lemma redactPII_discloses:
  "\<exists>res sp. redactPII text = Some res \<and> original_spans text = Some sp \<and>
     sorted (map m_start (matches res)) \<and>
     redactionCount res = length (matches res) \<and>
     mset (map disclosed (matches res)) = mset (map (matched_literal text) sp) \<and>
     (\<forall>x\<in>set sp. fst x < fst (snd x) \<and> fst (snd x) \<le> length text)"
proof -
  from exec_loop_total[OF consumes_patterns(1), of "text" 0] obtain fe where
    fe: "exec_loop email_re text 0 = Some fe" "chained 0 fe" "\<forall>m\<in>set fe. snd m \<le> length text"
    by blast
  from exec_loop_total[OF consumes_patterns(2), of "text" 0] obtain fp where
    fp: "exec_loop phone_re text 0 = Some fp" "chained 0 fp" "\<forall>m\<in>set fp. snd m \<le> length text"
    by blast
  from exec_loop_total[OF consumes_patterns(3), of "text" 0] obtain fs where
    fs: "exec_loop ssn_re text 0 = Some fs" "chained 0 fs" "\<forall>m\<in>set fs. snd m \<le> length text"
    by blast
  let ?tag = "\<lambda>ty. map (\<lambda>(s, e). (s, e, ty))"
  let ?sp = "sort_key fst (?tag Email fe @ ?tag Phone fp @ ?tag Ssn fs)"
  have sp: "original_spans text = Some ?sp"
    by (simp add: original_spans_def PII_PATTERNS_def fe(1) fp(1) fs(1))
  from redact_type_discloses[OF fe, of Email "text" "[]" 0]
  obtain t1 ms1 a1 where s1: "redact_type text (Email, email_re) (text, [], 0) = Some (t1, ms1, a1)"
    and d1: "mset (map disclosed ms1) = mset (map (matched_literal text) (?tag Email fe))"
    by auto
  from redact_type_discloses[OF fp, of Phone t1 ms1 a1]
  obtain t2 ms2 a2 where s2: "redact_type text (Phone, phone_re) (t1, ms1, a1) = Some (t2, ms2, a2)"
    and d2: "mset (map disclosed ms2) =
      mset (map disclosed ms1) + mset (map (matched_literal text) (?tag Phone fp))"
    by auto
  from redact_type_discloses[OF fs, of Ssn t2 ms2 a2]
  obtain t3 ms3 a3 where s3: "redact_type text (Ssn, ssn_re) (t2, ms2, a2) = Some (t3, ms3, a3)"
    and d3: "mset (map disclosed ms3) =
      mset (map disclosed ms2) + mset (map (matched_literal text) (?tag Ssn fs))"
    by auto
  have res: "redactPII text = Some \<lparr>redactedText = t3, matches = sort_key m_start ms3,
      redactionCount = length (sort_key m_start ms3)\<rparr>"
    by (simp add: redactPII_def PII_PATTERNS_def s1 s2 s3 Let_def)
  have "mset (map disclosed (sort_key m_start ms3)) = mset (map disclosed ms3)"
    by (simp only: mset_map mset_sort)
  also have "\<dots> = mset (map (matched_literal text) (?tag Email fe @ ?tag Phone fp @ ?tag Ssn fs))"
    by (simp only: d3 d2 d1 map_append mset_append add.assoc)
  also have "\<dots> = mset (map (matched_literal text) ?sp)"
    by (simp only: mset_map mset_sort)
  finally have m: "mset (map disclosed (sort_key m_start ms3)) = mset (map (matched_literal text) ?sp)" .
  have set_sp: "set ?sp = set (?tag Email fe) \<union> set (?tag Phone fp) \<union> set (?tag Ssn fs)"
    by (simp add: Un_assoc)
  have b: "\<forall>x\<in>set ?sp. fst x < fst (snd x) \<and> fst (snd x) \<le> length text"
  proof
    fix x assume "x \<in> set ?sp"
    then consider "x \<in> set (?tag Email fe)" | "x \<in> set (?tag Phone fp)" | "x \<in> set (?tag Ssn fs)"
      unfolding set_sp by blast
    then show "fst x < fst (snd x) \<and> fst (snd x) \<le> length text"
    proof cases
      case 1 then show ?thesis by (rule tagged_span[OF fe(2,3)])
    next
      case 2 then show ?thesis by (rule tagged_span[OF fp(2,3)])
    next
      case 3 then show ?thesis by (rule tagged_span[OF fs(2,3)])
    qed
  qed
  from res sp m b show ?thesis by simp
qed

section \<open>The redaction engine: claims\<close>

text \<open>
  C1: the offsets of every returned match locate its literal in the original text, and
  the matches are listed in the order of their original offsets. \<open>redactPII\<close> means
  to do so: its comments read "Adjust positions for already applied redactions" and
  "Sort matches by original position". The first text below holds, in this order, an
  address at offset 0, a second one at offset 45 and a phone number at offset 90. The
  phone number is listed before the second address and recorded at 34 .. 50, where the
  original text reads something else and the redacted text reads the phone number itself;
  the second address is recorded at 45 .. 61 and its placeholder stands at 17 .. 33.
  In the second text the digits of the mailbox name are also matched as a
  phone number, and this match is recorded with the start \<open>-6\<close>. In the third text,
  with addresses only, the second address is recorded at 7 .. 23: its literal ends at 13
  in the original text, and its placeholder stands at 17 .. 33 in the redacted text.
\<close>

theorem redactPII_offsets_not_original:
  "redactPII
     ''the.first.long.mailbox.name@mail.example.org the.other.long.mailbox.name@mail.example.org 555-123-4567''
   = Some \<lparr>redactedText = ''[REDACTED_EMAIL] [REDACTED_EMAIL] 555-123-4567[REDACTED_PHONE]'',
       matches =
         [\<lparr>m_type = Email, m_value = ''the.first.long.mailbox.name@mail.example.org'',
            m_start = 0, m_end = 16,
            m_hash = SHA256_hex ''the.first.long.mailbox.name@mail.example.org''\<rparr>,
          \<lparr>m_type = Phone, m_value = ''555-123-4567'', m_start = 34, m_end = 50,
            m_hash = SHA256_hex ''555-123-4567''\<rparr>,
          \<lparr>m_type = Email, m_value = ''the.other.long.mailbox.name@mail.example.org'',
            m_start = 45, m_end = 61,
            m_hash = SHA256_hex ''the.other.long.mailbox.name@mail.example.org''\<rparr>],
       redactionCount = 3\<rparr>
   \<and> js_substring
       ''the.first.long.mailbox.name@mail.example.org the.other.long.mailbox.name@mail.example.org 555-123-4567''
       34 50 = ''xample.org the.o''
   \<and> js_substring
       ''the.first.long.mailbox.name@mail.example.org the.other.long.mailbox.name@mail.example.org 555-123-4567''
       90 102 = ''555-123-4567''
   \<and> js_substring
       ''[REDACTED_EMAIL] [REDACTED_EMAIL] 555-123-4567[REDACTED_PHONE]'' 34 50
       = ''555-123-4567[RED''
   \<and> redactPII ''5551234567@example.com''
   = Some \<lparr>redactedText = ''[REDACTED_PHONE]EMAIL]'',
       matches =
         [\<lparr>m_type = Phone, m_value = ''5551234567'', m_start = - 6, m_end = 10,
            m_hash = SHA256_hex ''5551234567''\<rparr>,
          \<lparr>m_type = Email, m_value = ''5551234567@example.com'', m_start = 0, m_end = 16,
            m_hash = SHA256_hex ''5551234567@example.com''\<rparr>],
       redactionCount = 2\<rparr>
   \<and> redactPII ''a@b.co c@d.co''
   = Some \<lparr>redactedText = ''[REDACTED_EMAIL] [REDACTED_EMAIL]'',
       matches =
         [\<lparr>m_type = Email, m_value = ''a@b.co'', m_start = 0, m_end = 16,
            m_hash = SHA256_hex ''a@b.co''\<rparr>,
          \<lparr>m_type = Email, m_value = ''c@d.co'', m_start = 7, m_end = 23,
            m_hash = SHA256_hex ''c@d.co''\<rparr>],
       redactionCount = 2\<rparr>
   \<and> js_substring ''a@b.co c@d.co'' 7 23 = ''c@d.co''
   \<and> js_substring ''[REDACTED_EMAIL] [REDACTED_EMAIL]'' 7 23 = ''ED_EMAIL] [REDAC''"
  by code_simp

text \<open>
  C2, as the specification states it: the matched literal appears in no field of a match
  other than \<open>hash\<close>. The text below is the one of the test "should generate hash for
  each redacted item". The returned match holds the address in its \<open>value\<close> field,
  next to its digest.
\<close>

theorem redactPII_value_counterexample:
  "redactPII ''Email: test@example.com''
   = Some \<lparr>redactedText = ''Email: [REDACTED_EMAIL]'',
       matches =
         [\<lparr>m_type = Email, m_value = ''test@example.com'', m_start = 7, m_end = 23,
            m_hash = SHA256_hex ''test@example.com''\<rparr>],
       redactionCount = 1\<rparr>"
  by code_simp

text \<open>
  C2, amended: \<open>redactPII\<close> returns for every text, and its matches are, one for one,
  the spans that the three patterns match in the original text. Each match carries the
  category of its span, in \<open>value\<close> the literal \<open>text[s : e]\<close> that the pattern matched,
  and in \<open>hash\<close> the digest of this literal: the literal is kept in \<open>value\<close>. When all
  the matches of a text belong to one category, the redacted text is the original text
  with the placeholder of the category in place of each matched span, and every other
  span unchanged.
\<close>

theorem redactPII_keeps_matched_literal:
  "\<exists>res sp. redactPII text = Some res \<and> original_spans text = Some sp \<and>
     (\<forall>x\<in>set sp. fst x < fst (snd x) \<and> fst (snd x) \<le> length text) \<and>
     mset (map (\<lambda>m. (m_type m, m_value m, m_hash m)) (matches res)) =
       mset (map (\<lambda>(s, e, ty). (ty, take (e - s) (drop s text),
                                 hashValue (take (e - s) (drop s text)))) sp) \<and>
     ((\<exists>ty. \<forall>x\<in>set sp. snd (snd x) = ty) \<longrightarrow> redactedText res = splice text 0 sp)"
proof -
  from redactPII_discloses[of "text"] obtain res sp where
    res: "redactPII text = Some res" and sp: "original_spans text = Some sp"
    and m: "mset (map disclosed (matches res)) = mset (map (matched_literal text) sp)"
    and b: "\<forall>x\<in>set sp. fst x < fst (snd x) \<and> fst (snd x) \<le> length text"
    by blast
  have d: "disclosed = (\<lambda>m. (m_type m, m_value m, m_hash m))"
    by (rule ext) (simp add: disclosed_def)
  have l: "matched_literal text = (\<lambda>(s, e, ty). (ty, take (e - s) (drop s text),
      hashValue (take (e - s) (drop s text))))"
    by (rule ext) (simp add: matched_literal_def)
  from m have m': "mset (map (\<lambda>m. (m_type m, m_value m, m_hash m)) (matches res)) =
       mset (map (\<lambda>(s, e, ty). (ty, take (e - s) (drop s text),
                                 hashValue (take (e - s) (drop s text)))) sp)"
    by (simp only: d l)
  have c: "redactedText res = splice text 0 sp" if "\<forall>x\<in>set sp. snd (snd x) = ty" for ty
    using single_category_splice[OF sp that] res by auto
  from res sp b m' c show ?thesis by blast
qed

theorem redactPII_keeps_matched_literal_witness:
  "\<exists>res. redactPII ''Contact us at john.doe@example.com or support@company.org'' = Some res \<and>
     original_spans ''Contact us at john.doe@example.com or support@company.org''
       = Some [(14, 34, Email), (38, 57, Email)] \<and>
     mset (map (\<lambda>m. (m_type m, m_value m, m_hash m)) (matches res)) =
       mset [(Email, ''john.doe@example.com'', SHA256_hex ''john.doe@example.com''),
             (Email, ''support@company.org'', SHA256_hex ''support@company.org'')] \<and>
     redactedText res =
       splice ''Contact us at john.doe@example.com or support@company.org'' 0
         [(14, 34, Email), (38, 57, Email)] \<and>
     redactedText res = ''Contact us at [REDACTED_EMAIL] or [REDACTED_EMAIL]''"
proof -
  have sp: "original_spans ''Contact us at john.doe@example.com or support@company.org''
      = Some [(14, 34, Email), (38, 57, Email)]"
    by code_simp
  have spl: "splice ''Contact us at john.doe@example.com or support@company.org'' 0
      [(14, 34, Email), (38, 57, Email)] = ''Contact us at [REDACTED_EMAIL] or [REDACTED_EMAIL]''"
    by code_simp
  have lits: "map (\<lambda>(s, e, ty). (ty,
        take (e - s) (drop s ''Contact us at john.doe@example.com or support@company.org''),
        hashValue (take (e - s) (drop s ''Contact us at john.doe@example.com or support@company.org''))))
      [(14::nat, 34::nat, Email), (38, 57, Email)]
      = [(Email, ''john.doe@example.com'', SHA256_hex ''john.doe@example.com''),
         (Email, ''support@company.org'', SHA256_hex ''support@company.org'')]"
    by (simp add: hashValue_def)
  from redactPII_keeps_matched_literal[of "''Contact us at john.doe@example.com or support@company.org''"]
  obtain res where
    res: "redactPII ''Contact us at john.doe@example.com or support@company.org'' = Some res"
    and m: "mset (map (\<lambda>m. (m_type m, m_value m, m_hash m)) (matches res)) =
       mset (map (\<lambda>(s, e, ty). (ty,
        take (e - s) (drop s ''Contact us at john.doe@example.com or support@company.org''),
        hashValue (take (e - s) (drop s ''Contact us at john.doe@example.com or support@company.org''))))
      [(14, 34, Email), (38, 57, Email)])"
    and t: "(\<exists>ty. \<forall>x\<in>set [(14::nat, 34::nat, Email), (38, 57, Email)]. snd (snd x) = ty) \<longrightarrow>
       redactedText res = splice ''Contact us at john.doe@example.com or support@company.org'' 0
         [(14, 34, Email), (38, 57, Email)]"
    unfolding sp by auto
  have "\<exists>ty. \<forall>x\<in>set [(14::nat, 34::nat, Email), (38, 57, Email)]. snd (snd x) = ty"
    by (intro exI[of _ Email]) simp
  with t have t': "redactedText res = splice ''Contact us at john.doe@example.com or support@company.org'' 0
         [(14, 34, Email), (38, 57, Email)]" by blast
  from res sp m[unfolded lits] t' spl show ?thesis by (intro exI[of _ res]) simp
qed

text \<open>
  C3: the redacted text is the original text with the placeholder spliced in at each
  matched span, taken at its original offsets, also when matches of several categories
  stand in one text. The text below is the one of the test "should redact multiple PII
  types". \<open>redactPII\<close> cuts the text for the identity number at its original offsets
  after the phone number before it has grown by four code units: the last four digits
  of the identity number stay in the redacted text, and \<open>SN: \<close> is lost.
\<close>

theorem redactPII_splice_across_categories:
  "redactPII ''Contact John at john@example.com or call 555-123-4567. SSN: 123-45-6789''
   = Some \<lparr>redactedText =
         ''Contact John at [REDACTED_EMAIL] or call [REDACTED_PHONE]. S[REDACTED_SSN]6789'',
       matches =
         [\<lparr>m_type = Email, m_value = ''john@example.com'', m_start = 16, m_end = 32,
            m_hash = SHA256_hex ''john@example.com''\<rparr>,
          \<lparr>m_type = Phone, m_value = ''555-123-4567'', m_start = 41, m_end = 57,
            m_hash = SHA256_hex ''555-123-4567''\<rparr>,
          \<lparr>m_type = Ssn, m_value = ''123-45-6789'', m_start = 64, m_end = 78,
            m_hash = SHA256_hex ''123-45-6789''\<rparr>],
       redactionCount = 3\<rparr>
   \<and> spliced_text ''Contact John at john@example.com or call 555-123-4567. SSN: 123-45-6789''
   = Some ''Contact John at [REDACTED_EMAIL] or call [REDACTED_PHONE]. SSN: [REDACTED_SSN]''"
  by code_simp

text \<open>
  C9: \<open>containsPII\<close> is a pure predicate, two calls on the same string give the same
  answer. The first call below finds the address and leaves \<open>lastIndex = 23\<close> on the
  pattern for addresses; the second call on the same string starts there, finds no
  address, goes on to the other two patterns and answers \<open>false\<close>.
\<close>

theorem containsPII_repeated_call:
  "fst (containsPII ''Email: test@example.com'' initial_patterns) = True
   \<and> snd (containsPII ''Email: test@example.com'' initial_patterns) Email = 23
   \<and> fst (containsPII ''Email: test@example.com''
       (snd (containsPII ''Email: test@example.com'' initial_patterns))) = False"
  by code_simp

section \<open>The retriever: claims\<close>

lemma sorted_descending_keys:
  "sorted (map (\<lambda>x. - int (g x)) xs) \<Longrightarrow> sorted (rev (map g xs))"
proof -
  assume "sorted (map (\<lambda>x. - int (g x)) xs)"
  then have "sorted_wrt (\<lambda>a b. g b \<le> g a) xs"
    by (simp add: sorted_map)
  then show ?thesis
    by (simp add: sorted_wrt_rev sorted_wrt_map)
qed

lemma ranked_stable:
  fixes scored :: "('a \<times> nat) list"
  defines "ranked \<equiv> sort_key (\<lambda>item. - int (snd item)) (filter (\<lambda>item. 0 < snd item) scored)"
  shows "filter (\<lambda>item. snd item = k) ranked = filter (\<lambda>item. snd item = k \<and> 0 < k) scored"
proof -
  have "filter (\<lambda>item. snd item = k) ranked = filter (\<lambda>item. - int (snd item) = - int k) ranked"
    by simp
  also have "\<dots> = filter (\<lambda>item. - int (snd item) = - int k) (filter (\<lambda>item. 0 < snd item) scored)"
    unfolding ranked_def by (rule sort_key_stable)
  also have "\<dots> = filter (\<lambda>item. snd item = k \<and> 0 < k) scored"
    by (simp add: conj_commute cong: conj_cong)
  finally show ?thesis .
qed

lemma js_slice0_cases:
  "js_slice0 xs n = (if 0 \<le> n then take (nat n) xs else take (nat (int (length xs) + n)) xs)"
  by (simp add: js_slice0_def)

text \<open>
  C8: retrieval is deterministic. A call of \<open>queryRules\<close> leaves the store as it found
  it, and a second call with the same query and the same \<open>topN\<close> returns what the first
  returned. The identifiers returned are those of a list \<open>ranked\<close>, cut by
  \<open>slice(0, topN)\<close> (its first \<open>topN\<close> entries when \<open>topN\<close> is not negative). The
  scores in \<open>ranked\<close> descend, and for every score \<open>k\<close> the entries of \<open>ranked\<close> with
  score \<open>k\<close> are the rules of the corpus with that score, in the order of the corpus,
  and none when \<open>k = 0\<close>.
\<close>

theorem retrieval_deterministic:
  "queryRules (snd (queryRules (Some store) q n)) q n = queryRules (Some store) q n \<and>
   (\<exists>ranked.
      map_sum id ids (fst (queryRules (Some store) q n)) =
        Inr (map (\<lambda>item. doc_id (fst item))
               (if 0 \<le> n then take (nat n) ranked else take (nat (int (length ranked) + n)) ranked)) \<and>
      sorted (rev (map snd ranked)) \<and>
      (\<forall>k. filter (\<lambda>item. snd item = k) ranked =
            filter (\<lambda>item. snd item = k \<and> 0 < k) (map (\<lambda>doc. (doc, score (js_lower q) doc)) store)))"
proof -
  define scored where "scored = map (\<lambda>doc. (doc, score (js_lower q) doc)) store"
  define ranked where
    "ranked = sort_key (\<lambda>item. - int (snd item)) (filter (\<lambda>item. 0 < snd item) scored)"
  have run: "queryRules (Some store) q n = (Inr (query_result (js_slice0 ranked n)), Some store)"
    by (simp add: queryRules_def store_query_def top_results_def ranked_def scored_def)
  have again: "queryRules (snd (queryRules (Some store) q n)) q n = queryRules (Some store) q n"
    by (simp add: run)
  have ids: "map_sum id ids (fst (queryRules (Some store) q n)) =
      Inr (map (\<lambda>item. doc_id (fst item))
        (if 0 \<le> n then take (nat n) ranked else take (nat (int (length ranked) + n)) ranked))"
    by (simp only: run fst_conv map_sum.simps query_result_def js_slice0_cases
        QueryResult.simps)
  have "sorted (map (\<lambda>item. - int (snd item)) ranked)"
    unfolding ranked_def by (rule sorted_sort_key)
  then have desc: "sorted (rev (map snd ranked))" by (rule sorted_descending_keys)
  have stable: "filter (\<lambda>item. snd item = k) ranked =
      filter (\<lambda>item. snd item = k \<and> 0 < k) scored" for k
    unfolding ranked_def by (rule ranked_stable)
  from again ids desc stable show ?thesis
    unfolding scored_def by blast
qed

section \<open>The compliance evaluator: claims\<close>






text \<open>
  C4: for every supported document type and every field map \<open>generateChecklist\<close>
  returns one item for each check of that type, and a missing field gives a
  non-compliant item. The first field map below is the one of the test "should flag
  missing NAICS codes with R2 citation", which expects an item for R2 with the evidence
  "No NAICS codes found": the checklist holds the item for R1 and none for R2. The
  empty field map of a past-performance document gives the empty checklist, with no item
  for R3.
\<close>

theorem generateChecklist_omits_missing_field:
  "generateChecklist rt
     [(''company_name'', JStr ''Test Company''), (''UEI'', JStr ''A1B2C3D4E5F6'')]
     (JStr ''company_profile'') rules
   = Inr [\<lparr>requirement = ''Valid UEI Required'', status = ''compliant'',
           evidence = ''Valid UEI found: A1B2C3D4E5F6'', ruleId = ''R1'',
           severity = ''critical''\<rparr>]
   \<and> generateChecklist rt [] (JStr ''past_performance'') rules = Inr []"
  by code_simp

text \<open>
  A field that cannot be converted to a string makes \<open>generateChecklist\<close> throw: an
  object with a property \<open>toString\<close> of its own, as \<open>JSON.parse\<close> builds from
  \<open>{"UEI": {"toString": 1}}\<close>, has no callable \<open>toString\<close>.
\<close>

lemma generateChecklist_throws:
  "generateChecklist rt [(''UEI'', JObj [(''toString'', JNum (Fin 1))])]
     (JStr ''company_profile'') rules = Inl TypeError"
  by code_simp





section \<open>The pipeline: claims\<close>

text \<open>
  No run of the handler writes the status \<open>failed\<close>: a repository without such a
  row has none after the run, whatever the run meets.
\<close>

lemma never_failed_create:
  "never_failed db \<Longrightarrow> analysis_status row \<noteq> ''failed'' \<Longrightarrow>
     never_failed (AnalysisRepository_create db aid row)"
  by (simp add: never_failed_def AnalysisRepository_create_def)

lemma never_failed_update:
  "never_failed db \<Longrightarrow>
     (\<And>row. analysis_status row \<noteq> ''failed'' \<Longrightarrow> analysis_status (change row) \<noteq> ''failed'') \<Longrightarrow>
     AnalysisRepository_update other_values db aid vs change = Inr db' \<Longrightarrow>
     never_failed db'"
  by (auto simp: never_failed_def AnalysisRepository_update_def split: option.splits if_splits)

lemma store_results_never_failed:
  "never_failed db \<Longrightarrow>
     never_failed (fst (snd (store_results env c f r checklist brief email db logged)))"
  by (auto simp: store_results_def split: sum.splits elim!: never_failed_update[rotated 2])

lemma abstain_never_failed:
  "never_failed db \<Longrightarrow> never_failed (fst (snd (abstain env c db logged)))"
  by (auto simp: abstain_def split: sum.splits elim!: never_failed_update[rotated 2])

lemma analysis_steps_never_failed:
  "never_failed db \<Longrightarrow> never_failed (fst (snd (analysis_steps env classification db logged)))"
  by (auto simp: analysis_steps_def Let_def intro!: store_results_never_failed split: sum.splits)

lemma analysis_run_never_failed:
  assumes "never_failed db"
  shows "never_failed (fst (snd (analysis_run env validation db)))"
proof (cases validation)
  case (Inl message)
  with assms show ?thesis by (simp add: analysis_run_def)
next
  case (Inr rid)
  show ?thesis
  proof (cases "env_documents env rid")
    case Nil
    with Inr assms show ?thesis by (simp add: analysis_run_def)
  next
    case (Cons document rest)
    define db0 where "db0 = AnalysisRepository_create db (env_analysisId env)
        \<lparr>request_id = rid, document_classification = None,
         classification_confidence = None, checklist_items = None,
         negotiation_brief = None, client_email = None,
         rule_citations = None, analysis_status = ''processing'',
         error_message = None\<rparr>"
    have db0: "never_failed db0"
      unfolding db0_def using assms by (intro never_failed_create) simp_all
    define c where "c = classifyDocument (env_runtime env) (env_threshold env) (env_classification env)"
    show ?thesis
    proof (cases "AnalysisRepository_update (env_sqlite env) db0 (env_analysisId env)
        [documentType c, confidence c]
        (\<lambda>row. row\<lparr>document_classification := Some (documentType c),
                   classification_confidence := Some (confidence c)\<rparr>)")
      case (Inl e)
      with Inr Cons db0 show ?thesis
        by (simp add: analysis_run_def Let_def db0_def[symmetric] c_def[symmetric])
    next
      case upd: (Inr db1)
      have "never_failed db1"
        using db0 _ upd by (rule never_failed_update) simp
      with Inr Cons upd show ?thesis
        by (simp add: analysis_run_def Let_def db0_def[symmetric] c_def[symmetric]
            abstain_never_failed analysis_steps_never_failed)
    qed
  qed
qed

lemma analyze_never_failed:
  "never_failed db \<Longrightarrow> never_failed (fst (snd (analyze env validation db)))"
  using analysis_run_never_failed[of db env validation]
  by (auto simp: analyze_def split: prod.splits sum.splits)

text \<open>
  C6: an error in steps 2 to 5 sets the status of the analysis to \<open>failed\<close> and
  records the message of the error. In the first run below the vector store has been
  initialised, the classifier is confident, and the reply of the extraction is
  \<open>{"UEI": {"toString": 1}}\<close>: \<open>generateChecklist\<close> throws a \<open>TypeError\<close> in step 4,
  when it builds the evidence of the item for R1. In the second run the vector store has
  not been initialised, so \<open>queryRules\<close> throws "Vector store not initialized" in
  step 3. In both runs the handler answers 500 and the row of the analysis keeps the
  classification, the status \<open>processing\<close> and no error message.
\<close>

theorem analyze_error_leaves_processing:
  "(case analyze
       \<lparr>env_runtime = rt, env_sqlite = other_values, env_threshold = default_threshold,
        env_collection = initializeVectorStore,
        env_documents = one_document, env_analysisId = ''analysis-1'',
        env_classification = confident_reply,
        env_extraction = LlmJson [(''UEI'', JObj [(''toString'', JNum (Fin 1))])],
        env_brief = LlmText ''brief'', env_email = LlmText ''email''\<rparr>
       (Inr ''request-1'') Map.empty
    of (res, db, logged) \<Rightarrow>
      res = \<lparr>res_status = 500, res_body = ErrorBody ''An unexpected error occurred''\<rparr> \<and>
      db ''analysis-1'' =
        Some \<lparr>request_id = ''request-1'',
              document_classification = Some (JStr ''company_profile''),
              classification_confidence =
                Some (JNum (Fin (4278419646001971 / 4503599627370496))),
              checklist_items = None, negotiation_brief = None, client_email = None,
              rule_citations = None, analysis_status = ''processing'',
              error_message = None\<rparr> \<and>
      logged = [''Starting document analysis'', ''Classifying document'', ''Extracting fields'',
                ''Querying relevant rules'', ''Generating compliance checklist'',
                ''Analysis failed'', ''Unexpected Error:''])
   \<and> (case analyze
       \<lparr>env_runtime = rt, env_sqlite = other_values, env_threshold = default_threshold,
        env_collection = None,
        env_documents = one_document, env_analysisId = ''analysis-1'',
        env_classification = confident_reply,
        env_extraction = LlmJson company_profile_fields,
        env_brief = LlmText ''brief'', env_email = LlmText ''email''\<rparr>
       (Inr ''request-1'') Map.empty
    of (res, db, logged) \<Rightarrow>
      res = \<lparr>res_status = 500, res_body = ErrorBody ''An unexpected error occurred''\<rparr> \<and>
      db ''analysis-1'' =
        Some \<lparr>request_id = ''request-1'',
              document_classification = Some (JStr ''company_profile''),
              classification_confidence =
                Some (JNum (Fin (4278419646001971 / 4503599627370496))),
              checklist_items = None, negotiation_brief = None, client_email = None,
              rule_citations = None, analysis_status = ''processing'',
              error_message = None\<rparr> \<and>
      logged = [''Starting document analysis'', ''Classifying document'', ''Extracting fields'',
                ''Querying relevant rules'', ''Analysis failed'', ''Unexpected Error:''])"
  by (simp add: analyze_def analysis_run_def analysis_steps_def classifyDocument_def
      js_less_number_def js_or_def Let_def AnalysisRepository_create_def
      AnalysisRepository_update_def stmt_run_def queryRules_def store_query_def
      initializeVectorStore_def errorHandler_def extractFields_def
      fieldsToExtract_def company_profile_fields_def confident_reply_def one_document_def
      default_threshold_def generateChecklist_def check_uei_def)

text \<open>
  When the reply of the model reports a number below the threshold as its confidence,
  and a document type that the repository can bind (a string, a number, \<open>null\<close>, or
  none), the run stops after the classification: the status is
  \<open>completed_with_warnings\<close>, the reason is recorded, and no field is extracted, no rule
  retrieved and no checklist produced.
\<close>

lemma classifyDocument_reported_number:
  assumes "map_of result ''confidence'' = Some (JNum c)"
  shows "shouldAbstain (classifyDocument rt threshold (LlmJson result)) = js_lt c threshold"
    and "reasoning (classifyDocument rt threshold (LlmJson result)) =
      js_or (map_of result ''reasoning'') (JStr ''No reasoning provided'')"
    and "documentType (classifyDocument rt threshold (LlmJson result)) =
      js_or (map_of result ''documentType'') (JStr ''unknown'')"
    and "bindable (confidence (classifyDocument rt threshold (LlmJson result)))"
  using assms by (simp_all add: classifyDocument_def js_less_number_def js_or_def)

lemma analyze_abstains_on_reported_low_confidence:
  assumes reply: "env_classification env = LlmJson result"
    and conf: "map_of result ''confidence'' = Some (JNum c)"
    and low: "js_lt c (env_threshold env)"
    and docs: "env_documents env rid = d # ds"
    and type: "bindable (js_or (map_of result ''documentType'') (JStr ''unknown''))"
    and reason: "js_to_string (env_runtime env)
        (js_or (map_of result ''reasoning'') (JStr ''No reasoning provided'')) = Inr reason"
  shows "(case analyze env (Inr rid) db of (res, db', logged) \<Rightarrow>
      res_status res = 200 \<and>
      map_option analysis_status (db' (env_analysisId env)) = Some ''completed_with_warnings'' \<and>
      map_option error_message (db' (env_analysisId env)) =
        Some (Some (''Low confidence classification: '' @ reason)) \<and>
      map_option checklist_items (db' (env_analysisId env)) = Some None \<and>
      map_option rule_citations (db' (env_analysisId env)) = Some None \<and>
      logged = [''Starting document analysis'', ''Classifying document''])"
  using low type
  by (simp add: analyze_def analysis_run_def abstain_def Let_def reply docs reason
      classifyDocument_reported_number[OF conf] stmt_run_def
      AnalysisRepository_create_def AnalysisRepository_update_def)

text \<open>
  When the reply reports an object as its document type and \<open>run\<close> throws for it, the
  update with the classification throws: the handler answers with the error, and the
  row keeps the status \<open>processing\<close>, without classification, also when the
  reported confidence is below the threshold.
\<close>

lemma analyze_unbindable_classification:
  assumes reply: "env_classification env = LlmJson result"
    and conf: "map_of result ''confidence'' = Some (JNum c)"
    and docs: "env_documents env rid = d # ds"
    and type: "map_of result ''documentType'' = Some (JObj kvs)"
    and thrown: "env_sqlite env
        [JObj kvs, confidence (classifyDocument (env_runtime env) (env_threshold env) (LlmJson result)),
         JStr (env_analysisId env)] = Some e"
  shows "(case analyze env (Inr rid) db of (res, db', logged) \<Rightarrow>
      res = fst (errorHandler e) \<and>
      map_option analysis_status (db' (env_analysisId env)) = Some ''processing'' \<and>
      map_option error_message (db' (env_analysisId env)) = Some None \<and>
      map_option document_classification (db' (env_analysisId env)) = Some None)"
  using thrown
  by (simp add: analyze_def analysis_run_def Let_def reply docs type
      classifyDocument_reported_number(3)[OF conf] js_or_def stmt_run_def
      AnalysisRepository_create_def AnalysisRepository_update_def)

text \<open>
  C7: when the confidence of the classifier is below the threshold the pipeline stops
  after the classification. In the run below the reply of the model has no
  \<open>confidence\<close>. \<open>classifyDocument\<close> returns the confidence \<open>0\<close>, which is below
  the threshold, with \<open>shouldAbstain = false\<close>, since \<open>undefined < 0.8\<close> is false.
  The pipeline extracts fields, retrieves rules, produces the checklist and ends in
  the status \<open>completed\<close>.
\<close>

theorem analyze_missing_confidence_continues:
  "classifyDocument rt default_threshold reply_without_confidence =
     \<lparr>documentType = JStr ''company_profile'', confidence = JNum (Fin 0),
      reasoning = JStr ''Lists UEI, DUNS and NAICS codes'', shouldAbstain = False\<rparr>
   \<and> js_lt (Fin 0) default_threshold
   \<and> (case analyze
         \<lparr>env_runtime = rt, env_sqlite = other_values, env_threshold = default_threshold,
          env_collection = initializeVectorStore,
          env_documents = one_document, env_analysisId = ''analysis-1'',
          env_classification = reply_without_confidence,
          env_extraction = LlmJson company_profile_fields,
          env_brief = LlmText ''brief'', env_email = LlmText ''email''\<rparr>
         (Inr ''request-1'') Map.empty
      of (res, db, logged) \<Rightarrow>
        res_status res = 200 \<and>
        map_option classification_confidence (db ''analysis-1'') = Some (Some (JNum (Fin 0))) \<and>
        map_option analysis_status (db ''analysis-1'') = Some ''completed'' \<and>
        map_option error_message (db ''analysis-1'') = Some None \<and>
        map_option checklist_items (db ''analysis-1'') =
          Some (Some
            [\<lparr>requirement = ''Valid UEI Required'', status = ''compliant'',
               evidence = ''Valid UEI found: A1B2C3D4E5F6'', ruleId = ''R1'',
               severity = ''critical''\<rparr>,
             \<lparr>requirement = ''NAICS Code to SIN Mapping'', status = ''needs_review'',
               evidence =
                 ''Found 2 NAICS code(s): 541512, 541519. Requires mapping verification.'',
               ruleId = ''R2'', severity = ''high''\<rparr>]) \<and>
        logged = [''Starting document analysis'', ''Classifying document'',
                  ''Extracting fields'', ''Querying relevant rules'',
                  ''Generating compliance checklist'', ''Generating negotiation brief'',
                  ''Generating client email'', ''Document analysis completed successfully''])"
proof -
  have uei: "uei_pattern_test ''A1B2C3D4E5F6''" by code_simp
  have two: "decimal (Suc (Suc 0)) = ''2''" by code_simp
  have cls: "classifyDocument rt default_threshold reply_without_confidence =
     \<lparr>documentType = JStr ''company_profile'', confidence = JNum (Fin 0),
      reasoning = JStr ''Lists UEI, DUNS and NAICS codes'', shouldAbstain = False\<rparr>"
    by (simp add: classifyDocument_def reply_without_confidence_def js_less_number_def
        js_or_def default_threshold_def)
  have below: "js_lt (Fin 0) default_threshold"
    by (simp add: default_threshold_def)
  have run: "(case analyze
         \<lparr>env_runtime = rt, env_sqlite = other_values, env_threshold = default_threshold,
          env_collection = initializeVectorStore,
          env_documents = one_document, env_analysisId = ''analysis-1'',
          env_classification = reply_without_confidence,
          env_extraction = LlmJson company_profile_fields,
          env_brief = LlmText ''brief'', env_email = LlmText ''email''\<rparr>
         (Inr ''request-1'') Map.empty
      of (res, db, logged) \<Rightarrow>
        res_status res = 200 \<and>
        map_option classification_confidence (db ''analysis-1'') = Some (Some (JNum (Fin 0))) \<and>
        map_option analysis_status (db ''analysis-1'') = Some ''completed'' \<and>
        map_option error_message (db ''analysis-1'') = Some None \<and>
        map_option checklist_items (db ''analysis-1'') =
          Some (Some
            [\<lparr>requirement = ''Valid UEI Required'', status = ''compliant'',
               evidence = ''Valid UEI found: A1B2C3D4E5F6'', ruleId = ''R1'',
               severity = ''critical''\<rparr>,
             \<lparr>requirement = ''NAICS Code to SIN Mapping'', status = ''needs_review'',
               evidence =
                 ''Found 2 NAICS code(s): 541512, 541519. Requires mapping verification.'',
               ruleId = ''R2'', severity = ''high''\<rparr>]) \<and>
        logged = [''Starting document analysis'', ''Classifying document'',
                  ''Extracting fields'', ''Querying relevant rules'',
                  ''Generating compliance checklist'', ''Generating negotiation brief'',
                  ''Generating client email'', ''Document analysis completed successfully''])"
    by (simp add: analyze_def analysis_run_def analysis_steps_def store_results_def cls Let_def
        AnalysisRepository_create_def AnalysisRepository_update_def stmt_run_def queryRules_def
        store_query_def initializeVectorStore_def extractFields_def fieldsToExtract_def
        company_profile_fields_def one_document_def generateChecklist_def check_uei_def
        check_naics_def check_contract_value_def check_labor_categories_def js_array_join_def
        js_element_string_def generateClientEmail_def generateNegotiationBrief_def js_or_def
        uei two)
  from cls below run show ?thesis by (intro conjI)
qed

end
